theory Spec2Isabelle
  imports Complex_Main
begin

section \<open>JavaScript numbers\<close>

text \<open>
  A value of the viewer's numeric fields is a JavaScript Number. The model keeps the
  three non-finite values apart from the finite ones, because division by a zero
  container width and \<^verbatim>\<open>Math.min\<close>/\<^verbatim>\<open>Math.max\<close> on them decide what reaches the
  viewport state. Finite values are exact reals: rounding to binary64 and overflow of a
  finite operation are not modelled, and the sign of zero is not tracked (a zero divisor
  counts as \<^verbatim>\<open>+0\<close>, which is what \<^verbatim>\<open>window.innerWidth\<close> gives).
\<close>

datatype jsnum = Fin real | PInf | NInf | NaN

fun is_finite :: "jsnum \<Rightarrow> bool" where
  "is_finite (Fin a) = True"
| "is_finite PInf = False"
| "is_finite NInf = False"
| "is_finite NaN = False"

fun jneg :: "jsnum \<Rightarrow> jsnum" where
  "jneg (Fin a) = Fin (- a)"
| "jneg PInf = NInf"
| "jneg NInf = PInf"
| "jneg NaN = NaN"

fun jadd :: "jsnum \<Rightarrow> jsnum \<Rightarrow> jsnum" where
  "jadd (Fin a) (Fin b) = Fin (a + b)"
| "jadd NaN v = NaN"
| "jadd u NaN = NaN"
| "jadd PInf NInf = NaN"
| "jadd NInf PInf = NaN"
| "jadd PInf v = PInf"
| "jadd u PInf = PInf"
| "jadd NInf v = NInf"
| "jadd u NInf = NInf"

definition jsub :: "jsnum \<Rightarrow> jsnum \<Rightarrow> jsnum" where
  "jsub u v = jadd u (jneg v)"

fun jmul :: "jsnum \<Rightarrow> jsnum \<Rightarrow> jsnum" where
  "jmul (Fin a) (Fin b) = Fin (a * b)"
| "jmul NaN v = NaN"
| "jmul u NaN = NaN"
| "jmul (Fin a) PInf = (if a = 0 then NaN else if 0 < a then PInf else NInf)"
| "jmul (Fin a) NInf = (if a = 0 then NaN else if 0 < a then NInf else PInf)"
| "jmul PInf (Fin b) = (if b = 0 then NaN else if 0 < b then PInf else NInf)"
| "jmul NInf (Fin b) = (if b = 0 then NaN else if 0 < b then NInf else PInf)"
| "jmul PInf PInf = PInf"
| "jmul PInf NInf = NInf"
| "jmul NInf PInf = NInf"
| "jmul NInf NInf = PInf"

fun jdiv :: "jsnum \<Rightarrow> jsnum \<Rightarrow> jsnum" where
  "jdiv (Fin a) (Fin b) =
     (if b = 0 then (if a = 0 then NaN else if 0 < a then PInf else NInf)
      else Fin (a / b))"
| "jdiv NaN v = NaN"
| "jdiv u NaN = NaN"
| "jdiv (Fin a) PInf = Fin 0"
| "jdiv (Fin a) NInf = Fin 0"
| "jdiv PInf (Fin b) = (if 0 \<le> b then PInf else NInf)"
| "jdiv NInf (Fin b) = (if 0 \<le> b then NInf else PInf)"
| "jdiv PInf PInf = NaN"
| "jdiv PInf NInf = NaN"
| "jdiv NInf PInf = NaN"
| "jdiv NInf NInf = NaN"

text \<open>The comparison \<^verbatim>\<open><\<close>: false as soon as one side is \<^verbatim>\<open>NaN\<close>.\<close>

fun jlt :: "jsnum \<Rightarrow> jsnum \<Rightarrow> bool" where
  "jlt (Fin a) (Fin b) = (a < b)"
| "jlt NaN v = False"
| "jlt u NaN = False"
| "jlt PInf v = False"
| "jlt u NInf = False"
| "jlt NInf v = True"
| "jlt u PInf = True"

definition jgt :: "jsnum \<Rightarrow> jsnum \<Rightarrow> bool" where
  "jgt u v = jlt v u"

text \<open>Strict inequality \<^verbatim>\<open>!==\<close> on numbers: \<^verbatim>\<open>NaN\<close> differs from everything.\<close>

definition jsne :: "jsnum \<Rightarrow> jsnum \<Rightarrow> bool" where
  "jsne u v = (if u = NaN then True else if v = NaN then True else u \<noteq> v)"

text \<open>\<^verbatim>\<open>Math.min\<close> and \<^verbatim>\<open>Math.max\<close> of two arguments.\<close>

definition jmin :: "jsnum \<Rightarrow> jsnum \<Rightarrow> jsnum" where
  "jmin u v = (if u = NaN then NaN else if v = NaN then NaN else if jlt u v then u else v)"

definition jmax :: "jsnum \<Rightarrow> jsnum \<Rightarrow> jsnum" where
  "jmax u v = (if u = NaN then NaN else if v = NaN then NaN else if jlt u v then v else u)"

fun jsqrt :: "jsnum \<Rightarrow> jsnum" where
  "jsqrt (Fin a) = (if a < 0 then NaN else Fin (sqrt a))"
| "jsqrt PInf = PInf"
| "jsqrt NInf = NaN"
| "jsqrt NaN = NaN"

section \<open>Application state\<close>

text \<open>
  \<^verbatim>\<open>AppState\<close> with the fields the positioning code reads or writes, flattened
  (\<^verbatim>\<open>AppState.viewport.x\<close> is \<open>viewport_x\<close>), together with the instance fields of
  \<^verbatim>\<open>viewportController\<close> (\<open>cachedBounds\<close>, \<open>lastContainerSize\<close>) and of
  \<^verbatim>\<open>responsiveManager\<close> (\<open>deviceType\<close>), and the browser's animation-frame queue as far
  as \<^verbatim>\<open>moveLoop\<close> uses it: \<open>raf_pending\<close> is the queued \<^verbatim>\<open>moveLoop\<close> closure, with its
  handle and the \<^verbatim>\<open>lastFrameTime\<close> it captured; \<open>raf_lastHandle\<close> is the handle issued
  last. \<open>selfTest_restore\<close> is the timer that \<^verbatim>\<open>testViewportMask\<close> sets, with the
  position it saved. Rendering (\<^verbatim>\<open>updateViewportPosition()\<close>, the global function) only reads the
  viewport and writes the DOM and the performance counters; it is not part of the state.
\<close>

record bounds =
  minX :: jsnum
  maxX :: jsnum
  minY :: jsnum
  maxY :: jsnum

datatype device = MobileSmall | MobileLarge | Tablet | Desktop

record app_state =
  isLoaded :: bool
  viewport_x :: jsnum
  viewport_y :: jsnum
  viewport_radius :: jsnum
  input_mouseX :: jsnum
  input_mouseY :: jsnum
  input_keysPressed :: "string set"
  input_isMouseActive :: bool
  input_touchActive :: bool
  input_keyboardActive :: bool
  keyboard_animationId :: "nat option"
  keyboard_isMoving :: bool
  container_width :: jsnum
  container_height :: jsnum
  cachedBounds :: "bounds option"
  lastContainerSize_width :: jsnum
  lastContainerSize_height :: jsnum
  deviceType :: device
  raf_pending :: "(nat \<times> jsnum) option"
  raf_lastHandle :: nat
  selfTest_restore :: "(jsnum \<times> jsnum) option"

section \<open>ViewportController\<close>

definition smoothingFactor :: jsnum where
  "smoothingFactor = Fin 0.15"

definition touchSmoothingFactor :: jsnum where
  "touchSmoothingFactor = Fin 0.4"

definition boundaryPadding :: jsnum where
  "boundaryPadding = Fin 0.02"

text \<open>The block of \<^verbatim>\<open>applyBoundaryConstraints\<close> that fills the cache.\<close>

definition computeBounds :: "app_state \<Rightarrow> bounds" where
  "computeBounds s =
     (let radiusX = jdiv (viewport_radius s) (container_width s);
          radiusY = jdiv (viewport_radius s) (container_height s);
          dynamicPadding =
            (if jlt (container_width s) (Fin 768) then Fin 0.01 else boundaryPadding)
      in \<lparr> minX = jadd radiusX dynamicPadding,
           maxX = jsub (jsub (Fin 1) radiusX) dynamicPadding,
           minY = jadd radiusY dynamicPadding,
           maxY = jsub (jsub (Fin 1) radiusY) dynamicPadding \<rparr>)"

definition fillCache :: "app_state \<Rightarrow> bounds \<times> app_state" where
  "fillCache s =
     (let b = computeBounds s
      in (b, s\<lparr> cachedBounds := Some b,
                 lastContainerSize_width := container_width s,
                 lastContainerSize_height := container_height s \<rparr>))"

text \<open>
  The first statement of \<^verbatim>\<open>applyBoundaryConstraints\<close>: the bounds are recomputed when
  there are none or when the container size differs from the size they were computed
  at; the radius is not compared. The result is the bounds to use and the controller's
  new state.
\<close>

definition refreshBounds :: "app_state \<Rightarrow> bounds \<times> app_state" where
  "refreshBounds s =
     (case cachedBounds s of
        None \<Rightarrow> fillCache s
      | Some c \<Rightarrow>
          if jsne (lastContainerSize_width s) (container_width s) \<or>
             jsne (lastContainerSize_height s) (container_height s)
          then fillCache s else (c, s))"

text \<open>
  \<^verbatim>\<open>applyBoundaryConstraints(x, y)\<close> returns the constrained position; the model
  returns the new state with it.
\<close>

definition applyBoundaryConstraints ::
  "jsnum \<Rightarrow> jsnum \<Rightarrow> app_state \<Rightarrow> (jsnum \<times> jsnum) \<times> app_state" where
  "applyBoundaryConstraints x y s =
     (let (b, s') = refreshBounds s;
          constrainedX = jmax (minX b) (jmin (maxX b) x);
          constrainedY = jmax (minY b) (jmin (maxY b) y)
      in ((constrainedX, constrainedY), s'))"

definition mouseToViewportPosition ::
  "jsnum \<Rightarrow> jsnum \<Rightarrow> app_state \<Rightarrow> (jsnum \<times> jsnum) \<times> app_state" where
  "mouseToViewportPosition clientX clientY s =
     (let normalizedX = jdiv clientX (container_width s);
          normalizedY = jdiv clientY (container_height s)
      in applyBoundaryConstraints normalizedX normalizedY s)"

text \<open>The method \<^verbatim>\<open>updateViewportPosition(targetX, targetY, smooth)\<close>.\<close>

definition updateViewportPosition :: "jsnum \<Rightarrow> jsnum \<Rightarrow> bool \<Rightarrow> app_state \<Rightarrow> app_state" where
  "updateViewportPosition targetX targetY smooth s =
     (let (constrainedTarget, s1) = applyBoundaryConstraints targetX targetY s
      in if smooth then
           (let smoothing =
                  (if input_touchActive s1 then touchSmoothingFactor else smoothingFactor);
                currentX = viewport_x s1;
                currentY = viewport_y s1;
                newX = jadd currentX (jmul (jsub (fst constrainedTarget) currentX) smoothing);
                newY = jadd currentY (jmul (jsub (snd constrainedTarget) currentY) smoothing)
            in s1\<lparr> viewport_x := newX, viewport_y := newY \<rparr>)
         else s1\<lparr> viewport_x := fst constrainedTarget, viewport_y := snd constrainedTarget \<rparr>)"

definition moveViewportByDelta :: "jsnum \<Rightarrow> jsnum \<Rightarrow> app_state \<Rightarrow> app_state" where
  "moveViewportByDelta deltaX deltaY s =
     (let newX = jadd (viewport_x s) deltaX;
          newY = jadd (viewport_y s) deltaY;
          (constrainedPosition, s1) = applyBoundaryConstraints newX newY s
      in s1\<lparr> viewport_x := fst constrainedPosition, viewport_y := snd constrainedPosition \<rparr>)"

definition getKeyboardMoveSpeed :: "app_state \<Rightarrow> jsnum" where
  "getKeyboardMoveSpeed s =
     (if jlt (container_width s) (Fin 480) then Fin 0.003
      else if jlt (container_width s) (Fin 768) then Fin 0.0025
      else Fin 0.002)"

section \<open>ResponsiveManager and the viewport radius\<close>

definition detectDeviceType :: "app_state \<Rightarrow> device" where
  "detectDeviceType s =
     (let width = container_width s;
          height = container_height s;
          minDimension = jmin width height
      in if jlt minDimension (Fin 480) then MobileSmall
         else if jlt minDimension (Fin 768) then MobileLarge
         else if jlt minDimension (Fin 1024) then Tablet
         else Desktop)"

text \<open>
  \<^verbatim>\<open>updateResponsiveState\<close> also stores the orientation, which is only logged.
\<close>

definition updateResponsiveState :: "app_state \<Rightarrow> app_state" where
  "updateResponsiveState s = s\<lparr> deviceType := detectDeviceType s \<rparr>"

text \<open>
  The \<^verbatim>\<open>switch\<close> on the stored device type; its \<^verbatim>\<open>default\<close> branch has no value of
  \<open>device\<close> to run for.
\<close>

definition getOptimalViewportRadius :: "app_state \<Rightarrow> jsnum" where
  "getOptimalViewportRadius s =
     (let minDimension = jmin (container_width s) (container_height s)
      in case deviceType s of
           MobileSmall \<Rightarrow> jmin (Fin 80) (jmul minDimension (Fin 0.15))
         | MobileLarge \<Rightarrow> jmin (Fin 100) (jmul minDimension (Fin 0.18))
         | Tablet \<Rightarrow> jmin (Fin 140) (jmul minDimension (Fin 0.2))
         | Desktop \<Rightarrow> jmin (Fin 180) (jmul minDimension (Fin 0.15)))"

definition calculateViewportRadius :: "app_state \<Rightarrow> app_state" where
  "calculateViewportRadius s =
     (let baseRadius = getOptimalViewportRadius s;
          maxDimension = jmax (container_width s) (container_height s);
          minDimension = jmin (container_width s) (container_height s);
          aspectRatio = jdiv maxDimension minDimension;
          baseRadius' =
            (if jgt aspectRatio (Fin 2.5) then jmul baseRadius (Fin 0.75)
             else if jgt aspectRatio (Fin 2) then jmul baseRadius (Fin 0.85)
             else baseRadius)
      in s\<lparr> viewport_radius := jmax (Fin 60) (jmin (Fin 200) baseRadius') \<rparr>)"

text \<open>\<^verbatim>\<open>updateContainerDimensions\<close> reads \<^verbatim>\<open>window.innerWidth\<close> and \<^verbatim>\<open>innerHeight\<close>.\<close>

definition updateContainerDimensions :: "jsnum \<Rightarrow> jsnum \<Rightarrow> app_state \<Rightarrow> app_state" where
  "updateContainerDimensions innerWidth innerHeight s =
     s\<lparr> container_width := innerWidth, container_height := innerHeight \<rparr>"

text \<open>
  The body that \<^verbatim>\<open>handleResize\<close> runs once its debounce delay has passed;
  \<^verbatim>\<open>handleOrientationChange\<close> runs the same statements after its timeout. Neither
  touches the viewport position or the cached bounds.
\<close>

definition handleResize :: "jsnum \<Rightarrow> jsnum \<Rightarrow> app_state \<Rightarrow> app_state" where
  "handleResize innerWidth innerHeight s =
     (let s1 = updateContainerDimensions innerWidth innerHeight s;
          s2 = updateResponsiveState s1
      in if isLoaded s2 then calculateViewportRadius s2 else s2)"

definition handleOrientationChange :: "jsnum \<Rightarrow> jsnum \<Rightarrow> app_state \<Rightarrow> app_state" where
  "handleOrientationChange innerWidth innerHeight s =
     (let s1 = updateContainerDimensions innerWidth innerHeight s;
          s2 = updateResponsiveState s1
      in if isLoaded s2 then calculateViewportRadius s2 else s2)"

section \<open>Pointer and touch handlers\<close>

text \<open>
  Each handler is the function that \<^verbatim>\<open>throttle\<close> wraps: an event of the model is a
  sample that passed the throttle.
\<close>

definition handleMouseMove :: "jsnum \<Rightarrow> jsnum \<Rightarrow> app_state \<Rightarrow> app_state" where
  "handleMouseMove clientX clientY s =
     (if \<not> isLoaded s then s
      else
        (let s1 = s\<lparr> input_mouseX := clientX, input_mouseY := clientY,
                      input_isMouseActive := True, input_keyboardActive := False \<rparr>;
             (position, s2) = mouseToViewportPosition clientX clientY s1
         in updateViewportPosition (fst position) (snd position) True s2))"

text \<open>The argument is \<^verbatim>\<open>event.touches[0]\<close>: its client coordinates, or nothing.\<close>

definition handleTouchStart :: "(jsnum \<times> jsnum) option \<Rightarrow> app_state \<Rightarrow> app_state" where
  "handleTouchStart touch s =
     (if \<not> isLoaded s then s
      else case touch of
        None \<Rightarrow> s
      | Some (clientX, clientY) \<Rightarrow>
          (let s1 = s\<lparr> input_touchActive := True, input_isMouseActive := False,
                        input_keyboardActive := False,
                        input_mouseX := clientX, input_mouseY := clientY \<rparr>;
               (position, s2) = mouseToViewportPosition clientX clientY s1
           in updateViewportPosition (fst position) (snd position) False s2))"

definition handleTouchMove :: "(jsnum \<times> jsnum) option \<Rightarrow> app_state \<Rightarrow> app_state" where
  "handleTouchMove touch s =
     (if \<not> isLoaded s \<or> \<not> input_touchActive s then s
      else case touch of
        None \<Rightarrow> s
      | Some (clientX, clientY) \<Rightarrow>
          (let s1 = s\<lparr> input_mouseX := clientX, input_mouseY := clientY \<rparr>;
               (position, s2) = mouseToViewportPosition clientX clientY s1
           in updateViewportPosition (fst position) (snd position) True s2))"

text \<open>
  \<^verbatim>\<open>handleTouchEnd\<close> with its timer: 100 ms after the event, the touch flag is cleared
  when the event's touch list was empty.
\<close>

definition handleTouchEnd :: "bool \<Rightarrow> app_state \<Rightarrow> app_state" where
  "handleTouchEnd touchesEmpty s =
     (if \<not> isLoaded s then s
      else if touchesEmpty then s\<lparr> input_touchActive := False \<rparr> else s)"

section \<open>Keyboard movement loop\<close>

definition requestAnimationFrame :: "jsnum \<Rightarrow> app_state \<Rightarrow> nat \<times> app_state" where
  "requestAnimationFrame lastFrameTime s =
     (let h = Suc (raf_lastHandle s)
      in (h, s\<lparr> raf_pending := Some (h, lastFrameTime), raf_lastHandle := h \<rparr>))"

definition cancelAnimationFrame :: "nat \<Rightarrow> app_state \<Rightarrow> app_state" where
  "cancelAnimationFrame h s =
     (case raf_pending s of
        None \<Rightarrow> s
      | Some (h', t) \<Rightarrow> if h' = h then s\<lparr> raf_pending := None \<rparr> else s)"

definition stopKeyboardMovement :: "app_state \<Rightarrow> app_state" where
  "stopKeyboardMovement s =
     (let s1 = s\<lparr> keyboard_isMoving := False \<rparr>
      in case keyboard_animationId s1 of
           None \<Rightarrow> s1
         | Some h \<Rightarrow> (cancelAnimationFrame h s1)\<lparr> keyboard_animationId := None \<rparr>)"

text \<open>The four constants that \<^verbatim>\<open>moveLoop\<close> computes from the set of held keys.\<close>

definition leftPressed :: "string set \<Rightarrow> bool" where
  "leftPressed keys = (''arrowleft'' \<in> keys \<or> ''a'' \<in> keys)"

definition rightPressed :: "string set \<Rightarrow> bool" where
  "rightPressed keys = (''arrowright'' \<in> keys \<or> ''d'' \<in> keys)"

definition upPressed :: "string set \<Rightarrow> bool" where
  "upPressed keys = (''arrowup'' \<in> keys \<or> ''w'' \<in> keys)"

definition downPressed :: "string set \<Rightarrow> bool" where
  "downPressed keys = (''arrowdown'' \<in> keys \<or> ''s'' \<in> keys)"

text \<open>
  The movement deltas of one tick (the statements of \<^verbatim>\<open>moveLoop\<close> from
  \<^verbatim>\<open>if (leftPressed) deltaX -= moveSpeed\<close> to the diagonal normalisation).
\<close>

definition keyboardDeltas :: "string set \<Rightarrow> jsnum \<Rightarrow> jsnum \<times> jsnum" where
  "keyboardDeltas keys moveSpeed =
     (let deltaX0 = Fin 0;
          deltaY0 = Fin 0;
          deltaX1 = (if leftPressed keys then jsub deltaX0 moveSpeed else deltaX0);
          deltaX2 = (if rightPressed keys then jadd deltaX1 moveSpeed else deltaX1);
          deltaY1 = (if upPressed keys then jsub deltaY0 moveSpeed else deltaY0);
          deltaY2 = (if downPressed keys then jadd deltaY1 moveSpeed else deltaY1)
      in if (leftPressed keys \<or> rightPressed keys) \<and> (upPressed keys \<or> downPressed keys) then
           (let diagonalFactor = jdiv (Fin 1) (jsqrt (Fin 2))
            in (jmul deltaX2 diagonalFactor, jmul deltaY2 diagonalFactor))
         else (deltaX2, deltaY2))"

text \<open>
  One run of the closure \<^verbatim>\<open>moveLoop(currentTime)\<close>; \<open>lastFrameTime\<close> is the variable
  it captured, which the rescheduled closure sees set to \<open>currentTime\<close>.
\<close>

definition moveLoop :: "jsnum \<Rightarrow> jsnum \<Rightarrow> app_state \<Rightarrow> app_state" where
  "moveLoop lastFrameTime currentTime s =
     (if \<not> keyboard_isMoving s \<or> input_keysPressed s = {} then stopKeyboardMovement s
      else
        (let deltaTime = jsub currentTime lastFrameTime;
             frameMultiplier = jdiv deltaTime (Fin 16.67);
             baseSpeed = getKeyboardMoveSpeed s;
             moveSpeed = jmul baseSpeed frameMultiplier;
             (deltaX, deltaY) = keyboardDeltas (input_keysPressed s) moveSpeed;
             s1 = (if jsne deltaX (Fin 0) \<or> jsne deltaY (Fin 0)
                   then moveViewportByDelta deltaX deltaY s else s);
             (h, s2) = requestAnimationFrame currentTime s1
         in s2\<lparr> keyboard_animationId := Some h \<rparr>))"

text \<open>\<open>now\<close> is the value of \<^verbatim>\<open>performance.now()\<close> read when the loop starts.\<close>

definition startKeyboardMovement :: "jsnum \<Rightarrow> app_state \<Rightarrow> app_state" where
  "startKeyboardMovement now s =
     (if keyboard_isMoving s then s
      else
        (let s1 = s\<lparr> keyboard_isMoving := True \<rparr>;
             (h, s2) = requestAnimationFrame now s1
         in s2\<lparr> keyboard_animationId := Some h \<rparr>))"

definition navigationKeys :: "string list" where
  "navigationKeys =
     [''arrowup'', ''arrowdown'', ''arrowleft'', ''arrowright'', ''w'', ''a'', ''s'', ''d'']"

text \<open>The key handlers take \<^verbatim>\<open>event.key.toLowerCase()\<close> as their argument.\<close>

definition handleKeyDown :: "string \<Rightarrow> jsnum \<Rightarrow> app_state \<Rightarrow> app_state" where
  "handleKeyDown key now s =
     (if \<not> isLoaded s then s
      else if key \<in> set navigationKeys then
        (let s1 = s\<lparr> input_keysPressed := insert key (input_keysPressed s),
                      input_keyboardActive := True, input_isMouseActive := False \<rparr>
         in if \<not> keyboard_isMoving s1 then startKeyboardMovement now s1 else s1)
      else s)"

definition handleKeyUp :: "string \<Rightarrow> app_state \<Rightarrow> app_state" where
  "handleKeyUp key s =
     (if \<not> isLoaded s then s
      else
        (let s1 = s\<lparr> input_keysPressed := input_keysPressed s - {key} \<rparr>
         in if input_keysPressed s1 = {} then stopKeyboardMovement s1 else s1))"

text \<open>The browser runs the queued \<^verbatim>\<open>moveLoop\<close> closure, if there is one.\<close>

definition animationFrame :: "jsnum \<Rightarrow> app_state \<Rightarrow> app_state" where
  "animationFrame currentTime s =
     (case raf_pending s of
        None \<Rightarrow> s
      | Some (h, lastFrameTime) \<Rightarrow> moveLoop lastFrameTime currentTime (s\<lparr> raf_pending := None \<rparr>))"

definition handleBlur :: "app_state \<Rightarrow> app_state" where
  "handleBlur s =
     (stopKeyboardMovement (s\<lparr> input_keysPressed := {} \<rparr>))\<lparr> input_touchActive := False \<rparr>"

definition handleVisibilityChange :: "bool \<Rightarrow> app_state \<Rightarrow> app_state" where
  "handleVisibilityChange hidden s =
     (if hidden then stopKeyboardMovement (s\<lparr> input_keysPressed := {} \<rparr>) else s)"

text \<open>The public \<^verbatim>\<open>setViewportPosition(normalizedX, normalizedY)\<close>.\<close>

definition setViewportPosition :: "jsnum \<Rightarrow> jsnum \<Rightarrow> app_state \<Rightarrow> app_state" where
  "setViewportPosition normalizedX normalizedY s =
     s\<lparr> viewport_x := jmax (Fin 0) (jmin (Fin 1) normalizedX),
        viewport_y := jmax (Fin 0) (jmin (Fin 1) normalizedY) \<rparr>"

section \<open>Start-up and event processing\<close>

text \<open>
  The state once the script has been evaluated: the \<^verbatim>\<open>AppState\<close> literal, a controller
  with no cached bounds, and a \<^verbatim>\<open>ResponsiveManager\<close> whose constructor ran
  \<^verbatim>\<open>detectDeviceType\<close> on the 0 x 0 container of the literal, hence \<open>MobileSmall\<close>.
\<close>

definition moduleState :: app_state where
  "moduleState =
     \<lparr> isLoaded = False,
       viewport_x = Fin 0.5, viewport_y = Fin 0.5, viewport_radius = Fin 150,
       input_mouseX = Fin 0, input_mouseY = Fin 0, input_keysPressed = {},
       input_isMouseActive = False, input_touchActive = False,
       input_keyboardActive = False,
       keyboard_animationId = None, keyboard_isMoving = False,
       container_width = Fin 0, container_height = Fin 0,
       cachedBounds = None,
       lastContainerSize_width = Fin 0, lastContainerSize_height = Fin 0,
       deviceType = MobileSmall,
       raf_pending = None, raf_lastHandle = 0, selfTest_restore = None \<rparr>"

text \<open>
  \<^verbatim>\<open>testViewportMask\<close>, as far as it touches the state (the mask element exists once
  \<^verbatim>\<open>init\<close> has returned, and the logging is left out): it saves the position, moves the
  viewport to (0.51, 0.51) and sets a timer of 100 ms that puts the saved position back.
\<close>

definition testViewportMask :: "app_state \<Rightarrow> app_state" where
  "testViewportMask s =
     (let originalX = viewport_x s;
          originalY = viewport_y s
      in s\<lparr> viewport_x := Fin 0.51, viewport_y := Fin 0.51,
            selfTest_restore := Some (originalX, originalY) \<rparr>)"

text \<open>The callback of that timer.\<close>

definition selfTestTimeout :: "app_state \<Rightarrow> app_state" where
  "selfTestTimeout s =
     (case selfTest_restore s of
        None \<Rightarrow> s
      | Some (originalX, originalY) \<Rightarrow>
          s\<lparr> viewport_x := originalX, viewport_y := originalY, selfTest_restore := None \<rparr>)"

text \<open>
  \<^verbatim>\<open>initializeViewport\<close>: it returns with the viewer loaded, the viewport at
  (0.51, 0.51) and the self-test timer running.
\<close>

definition initializeViewport :: "app_state \<Rightarrow> app_state" where
  "initializeViewport s =
     (let s1 = s\<lparr> viewport_x := Fin 0.5, viewport_y := Fin 0.5 \<rparr>;
          s2 = calculateViewportRadius s1;
          s3 = s2\<lparr> isLoaded := True \<rparr>
      in testViewportMask s3)"

text \<open>
  \<^verbatim>\<open>init\<close> reads the window size; the viewport is initialised when the image has
  loaded. No statement in between updates the responsive state.
\<close>

definition init :: "jsnum \<Rightarrow> jsnum \<Rightarrow> app_state" where
  "init innerWidth innerHeight =
     initializeViewport (updateContainerDimensions innerWidth innerHeight moduleState)"

datatype event =
    MouseMove jsnum jsnum
  | TouchStart "(jsnum \<times> jsnum) option"
  | TouchMove "(jsnum \<times> jsnum) option"
  | TouchEnd bool
  | KeyDown string jsnum
  | KeyUp string
  | AnimationFrame jsnum
  | MouseEnter
  | MouseLeave
  | Blur
  | VisibilityChange bool
  | Resize jsnum jsnum
  | OrientationChange jsnum jsnum
  | SelfTestTimeout

fun step :: "event \<Rightarrow> app_state \<Rightarrow> app_state" where
  "step (MouseMove clientX clientY) s = handleMouseMove clientX clientY s"
| "step (TouchStart touch) s = handleTouchStart touch s"
| "step (TouchMove touch) s = handleTouchMove touch s"
| "step (TouchEnd touchesEmpty) s = handleTouchEnd touchesEmpty s"
| "step (KeyDown key now) s = handleKeyDown key now s"
| "step (KeyUp key) s = handleKeyUp key s"
| "step (AnimationFrame currentTime) s = animationFrame currentTime s"
| "step MouseEnter s = s\<lparr> input_isMouseActive := True \<rparr>"
| "step MouseLeave s = s\<lparr> input_isMouseActive := False \<rparr>"
| "step Blur s = handleBlur s"
| "step (VisibilityChange hidden) s = handleVisibilityChange hidden s"
| "step (Resize innerWidth innerHeight) s = handleResize innerWidth innerHeight s"
| "step (OrientationChange innerWidth innerHeight) s =
     handleOrientationChange innerWidth innerHeight s"
| "step SelfTestTimeout s = selfTestTimeout s"

fun run :: "event list \<Rightarrow> app_state \<Rightarrow> app_state" where
  "run [] s = s"
| "run (e # es) s = run es (step e s)"

section \<open>Notions used in the properties\<close>

text \<open>
  The clamp with bounds recomputed on every call, as the spec describes the cache-free
  version: the bounds are a function of the container size and the radius alone.
\<close>

definition recomputedConstraints :: "jsnum \<Rightarrow> jsnum \<Rightarrow> app_state \<Rightarrow> jsnum \<times> jsnum" where
  "recomputedConstraints x y s =
     (let b = computeBounds s
      in (jmax (minX b) (jmin (maxX b) x), jmax (minY b) (jmin (maxY b) y)))"

text \<open>
  The unit direction of the spec's input reducer, in its words: left and up contribute
  \<open>-1\<close>, right and down \<open>+1\<close>, and when an X and a Y direction are both active the two
  components are scaled by \<open>1 / sqrt 2\<close>.
\<close>

definition heldDirection :: "string set \<Rightarrow> real \<times> real" where
  "heldDirection keys =
     (let dx = (if rightPressed keys then 1 else 0) - (if leftPressed keys then 1 else 0);
          dy = (if downPressed keys then 1 else 0) - (if upPressed keys then 1 else 0)
      in if (leftPressed keys \<or> rightPressed keys) \<and> (upPressed keys \<or> downPressed keys)
         then (dx * (1 / sqrt 2), dy * (1 / sqrt 2)) else (dx, dy))"

text \<open>The number of directions (out of left, right, up, down) that a key set holds.\<close>

definition directionsHeld :: "string set \<Rightarrow> nat" where
  "directionsHeld keys =
     (if leftPressed keys then 1 else 0) + (if rightPressed keys then 1 else 0) +
     (if upPressed keys then 1 else 0) + (if downPressed keys then 1 else 0)"

text \<open>The boundary constraints leave a target position as it is.\<close>

definition unclamped :: "jsnum \<Rightarrow> jsnum \<Rightarrow> app_state \<Rightarrow> bool" where
  "unclamped x y s = (fst (applyBoundaryConstraints x y s) = (x, y))"

text \<open>The comparison \<^verbatim>\<open><=\<close>, used to state that a position lies in a rectangle.\<close>

fun jle :: "jsnum \<Rightarrow> jsnum \<Rightarrow> bool" where
  "jle (Fin a) (Fin b) = (a \<le> b)"
| "jle NaN v = False"
| "jle u NaN = False"
| "jle NInf v = True"
| "jle u PInf = True"
| "jle PInf v = False"
| "jle u NInf = False"

text \<open>The viewport position lies in the rectangle \<open>b\<close>.\<close>

definition inRectangle :: "bounds \<Rightarrow> app_state \<Rightarrow> bool" where
  "inRectangle b s =
     (jle (minX b) (viewport_x s) \<and> jle (viewport_x s) (maxX b) \<and>
      jle (minY b) (viewport_y s) \<and> jle (viewport_y s) (maxY b))"

text \<open>The cache, when filled, holds the bounds of the current container size and radius.\<close>

definition coherent :: "app_state \<Rightarrow> bool" where
  "coherent s =
     (case cachedBounds s of
        None \<Rightarrow> True
      | Some c \<Rightarrow> c = computeBounds s \<and>
          lastContainerSize_width s = container_width s \<and>
          lastContainerSize_height s = container_height s)"

text \<open>The queued \<^verbatim>\<open>moveLoop\<close> closure, if any, captured a finite frame time.\<close>

definition pendingFinite :: "app_state \<Rightarrow> bool" where
  "pendingFinite s = (case raf_pending s of None \<Rightarrow> True | Some (k, t) \<Rightarrow> is_finite t)"

text \<open>
  The pointer, touch, keyboard, frame and focus events, with finite coordinates and
  times, and the self-test timer: every event but a resize or an orientation change.
\<close>

fun inputEvent :: "event \<Rightarrow> bool" where
  "inputEvent (MouseMove clientX clientY) = (is_finite clientX \<and> is_finite clientY)"
| "inputEvent (TouchStart None) = True"
| "inputEvent (TouchStart (Some (clientX, clientY))) = (is_finite clientX \<and> is_finite clientY)"
| "inputEvent (TouchMove None) = True"
| "inputEvent (TouchMove (Some (clientX, clientY))) = (is_finite clientX \<and> is_finite clientY)"
| "inputEvent (TouchEnd touchesEmpty) = True"
| "inputEvent (KeyDown key now) = is_finite now"
| "inputEvent (KeyUp key) = True"
| "inputEvent (AnimationFrame currentTime) = is_finite currentTime"
| "inputEvent MouseEnter = True"
| "inputEvent MouseLeave = True"
| "inputEvent Blur = True"
| "inputEvent (VisibilityChange hidden) = True"
| "inputEvent (Resize innerWidth innerHeight) = False"
| "inputEvent (OrientationChange innerWidth innerHeight) = False"
| "inputEvent SelfTestTimeout = True"

text \<open>While the self-test timer runs, the position it saved is the centre.\<close>

definition restoreOk :: "app_state \<Rightarrow> bool" where
  "restoreOk s =
     (case selfTest_restore s of None \<Rightarrow> True | Some p \<Rightarrow> p = (Fin 0.5, Fin 0.5))"

text \<open>
  The invariant between two resizes: a loaded viewer with finite container size
  \<open>w\<close> x \<open>h\<close> and radius \<open>r\<close>, a coherent cache and a finite position, which lies
  inside the rectangle computed from them once the self-test timer has fired, and from
  the start when \<open>inside\<close> is set.
\<close>

definition steady :: "bool \<Rightarrow> real \<Rightarrow> real \<Rightarrow> real \<Rightarrow> app_state \<Rightarrow> bool" where
  "steady inside w h r s =
     (isLoaded s \<and> container_width s = Fin w \<and> container_height s = Fin h \<and>
      viewport_radius s = Fin r \<and> coherent s \<and> pendingFinite s \<and> restoreOk s \<and>
      is_finite (viewport_x s) \<and> is_finite (viewport_y s) \<and>
      (inside \<or> selfTest_restore s = None \<longrightarrow> inRectangle (computeBounds s) s))"

text \<open>The rectangle of the spec's boundary calculator over the reals, per axis of length \<open>d\<close>.\<close>

definition padding :: "real \<Rightarrow> real" where
  "padding w = (if w < 768 then 0.01 else 0.02)"

definition rectMin :: "real \<Rightarrow> real \<Rightarrow> real \<Rightarrow> real" where
  "rectMin w d r = r / d + padding w"

definition rectMax :: "real \<Rightarrow> real \<Rightarrow> real \<Rightarrow> real" where
  "rectMax w d r = 1 - r / d - padding w"

text \<open>
  A container dimension of magnitude at least 1, as every nonzero number of pixels is;
  it may be negative or infinite.
\<close>

fun usable :: "jsnum \<Rightarrow> bool" where
  "usable (Fin a) = (1 \<le> \<bar>a\<bar>)"
| "usable PInf = True"
| "usable NInf = True"
| "usable NaN = False"

text \<open>A finite number of magnitude at most \<open>K\<close>.\<close>

fun inRange :: "real \<Rightarrow> jsnum \<Rightarrow> bool" where
  "inRange K (Fin a) = (\<bar>a\<bar> \<le> K)"
| "inRange K PInf = False"
| "inRange K NInf = False"
| "inRange K NaN = False"

text \<open>
  The bound on the coordinates and timestamps of the events considered for finiteness.
  With sizes of magnitude at least 1 and inputs within this bound, the quotients,
  differences and products that the handlers form stay below \<open>2 ^ 1002\<close>, inside the
  range of binary64, so that on these inputs the overflow that the number model leaves
  out does not occur in the code either.
\<close>

definition coordinateBound :: real where
  "coordinateBound = 2 ^ 1000"

text \<open>The queued \<^verbatim>\<open>moveLoop\<close> closure, if any, captured a frame time within the bound.\<close>

definition pendingBounded :: "app_state \<Rightarrow> bool" where
  "pendingBounded s =
     (case raf_pending s of None \<Rightarrow> True | Some (k, t) \<Rightarrow> inRange coordinateBound t)"

text \<open>All four bounds are finite numbers of magnitude at most 202.\<close>

definition boundedBounds :: "bounds \<Rightarrow> bool" where
  "boundedBounds b =
     (inRange 202 (minX b) \<and> inRange 202 (maxX b) \<and> inRange 202 (minY b) \<and> inRange 202 (maxY b))"

text \<open>
  The state holds bounded numbers where the positioning code reads them: the position
  and the cached bounds within 202, the radius between 60 and 200, a captured frame
  time within the bound, the centre as saved position; and the container is usable.
\<close>

definition boundedState :: "app_state \<Rightarrow> bool" where
  "boundedState s =
     (inRange 202 (viewport_x s) \<and> inRange 202 (viewport_y s) \<and>
      jle (Fin 60) (viewport_radius s) \<and> jle (viewport_radius s) (Fin 200) \<and>
      (case cachedBounds s of None \<Rightarrow> True | Some c \<Rightarrow> boundedBounds c) \<and>
      pendingBounded s \<and> restoreOk s \<and>
      usable (container_width s) \<and> usable (container_height s))"

text \<open>
  An input event with coordinates and times within the bound, or a resize to a usable
  size.
\<close>

fun admissibleEvent :: "event \<Rightarrow> bool" where
  "admissibleEvent (MouseMove clientX clientY) =
     (inRange coordinateBound clientX \<and> inRange coordinateBound clientY)"
| "admissibleEvent (TouchStart None) = True"
| "admissibleEvent (TouchStart (Some (clientX, clientY))) =
     (inRange coordinateBound clientX \<and> inRange coordinateBound clientY)"
| "admissibleEvent (TouchMove None) = True"
| "admissibleEvent (TouchMove (Some (clientX, clientY))) =
     (inRange coordinateBound clientX \<and> inRange coordinateBound clientY)"
| "admissibleEvent (TouchEnd touchesEmpty) = True"
| "admissibleEvent (KeyDown key now) = inRange coordinateBound now"
| "admissibleEvent (KeyUp key) = True"
| "admissibleEvent (AnimationFrame currentTime) = inRange coordinateBound currentTime"
| "admissibleEvent MouseEnter = True"
| "admissibleEvent MouseLeave = True"
| "admissibleEvent Blur = True"
| "admissibleEvent (VisibilityChange hidden) = True"
| "admissibleEvent (Resize innerWidth innerHeight) = (usable innerWidth \<and> usable innerHeight)"
| "admissibleEvent (OrientationChange innerWidth innerHeight) =
     (usable innerWidth \<and> usable innerHeight)"
| "admissibleEvent SelfTestTimeout = True"

text \<open>
  A queued \<^verbatim>\<open>moveLoop\<close> closure belongs to the running loop: \<^verbatim>\<open>isMoving\<close> is set and
  \<^verbatim>\<open>animationId\<close> is its handle.
\<close>

definition loopQueued :: "app_state \<Rightarrow> bool" where
  "loopQueued s =
     (case raf_pending s of
        None \<Rightarrow> True
      | Some (k, t) \<Rightarrow> keyboard_isMoving s \<and> keyboard_animationId s = Some k)"

section \<open>Arithmetic of the number model\<close>

lemma jsub_Fin [simp]: "jsub (Fin a) (Fin b) = Fin (a - b)"
  by (simp add: jsub_def)

lemma jmin_Fin [simp]: "jmin (Fin a) (Fin b) = Fin (min a b)"
  by (simp add: jmin_def min_def)

lemma jmax_Fin [simp]: "jmax (Fin a) (Fin b) = Fin (max a b)"
  by (simp add: jmax_def max_def)

lemma jsne_Fin [simp]: "jsne (Fin a) (Fin b) = (a \<noteq> b)"
  by (simp add: jsne_def)

lemma jgt_Fin [simp]: "jgt (Fin a) (Fin b) = (b < a)"
  by (simp add: jgt_def)

text \<open>With the upper bound below the lower one, the clamp returns the lower bound.\<close>

lemma clamp_degenerate: "jlt hi lo \<Longrightarrow> x \<noteq> NaN \<Longrightarrow> jmax lo (jmin hi x) = lo"
  by (cases lo; cases hi; cases x) (auto simp: jmax_def jmin_def)

lemma clamp_idem: "jmax lo (jmin hi (jmax lo (jmin hi x))) = jmax lo (jmin hi x)"
  by (cases lo; cases hi; cases x) (auto simp: jmax_def jmin_def)

section \<open>Boundary constraints\<close>

lemmas init_defs = init_def initializeViewport_def testViewportMask_def selfTestTimeout_def
  updateContainerDimensions_def moduleState_def calculateViewportRadius_def
  getOptimalViewportRadius_def Let_def

lemma applyBoundaryConstraints_cached:
  "\<exists>b. cachedBounds (snd (applyBoundaryConstraints x y s)) = Some b \<and>
       fst (applyBoundaryConstraints x y s) =
         (jmax (minX b) (jmin (maxX b) x), jmax (minY b) (jmin (maxY b) y))"
  by (simp add: applyBoundaryConstraints_def refreshBounds_def fillCache_def Let_def
      split: option.splits)

lemma applyBoundaryConstraints_fresh:
  "cachedBounds s = None \<Longrightarrow>
   cachedBounds (snd (applyBoundaryConstraints x y s)) = Some (computeBounds s)"
  by (simp add: applyBoundaryConstraints_def refreshBounds_def fillCache_def Let_def)

lemma refreshBounds_again:
  "refreshBounds (snd (refreshBounds s)) = (fst (refreshBounds s), snd (refreshBounds s))"
  by (auto simp: refreshBounds_def fillCache_def computeBounds_def Let_def split: option.splits)

lemma abc_unfold:
  "applyBoundaryConstraints x y s =
     ((jmax (minX (fst (refreshBounds s))) (jmin (maxX (fst (refreshBounds s))) x),
       jmax (minY (fst (refreshBounds s))) (jmin (maxY (fst (refreshBounds s))) y)),
      snd (refreshBounds s))"
  by (simp add: applyBoundaryConstraints_def Let_def split: prod.splits)

lemma refreshBounds_keeps [simp]:
  "viewport_x (snd (refreshBounds s)) = viewport_x s"
  "viewport_y (snd (refreshBounds s)) = viewport_y s"
  "viewport_radius (snd (refreshBounds s)) = viewport_radius s"
  "container_width (snd (refreshBounds s)) = container_width s"
  "container_height (snd (refreshBounds s)) = container_height s"
  "isLoaded (snd (refreshBounds s)) = isLoaded s"
  "input_touchActive (snd (refreshBounds s)) = input_touchActive s"
  "input_keysPressed (snd (refreshBounds s)) = input_keysPressed s"
  "keyboard_isMoving (snd (refreshBounds s)) = keyboard_isMoving s"
  "keyboard_animationId (snd (refreshBounds s)) = keyboard_animationId s"
  "raf_pending (snd (refreshBounds s)) = raf_pending s"
  "raf_lastHandle (snd (refreshBounds s)) = raf_lastHandle s"
  "deviceType (snd (refreshBounds s)) = deviceType s"
  "input_isMouseActive (snd (refreshBounds s)) = input_isMouseActive s"
  "input_keyboardActive (snd (refreshBounds s)) = input_keyboardActive s"
  "selfTest_restore (snd (refreshBounds s)) = selfTest_restore s"
  by (simp_all add: refreshBounds_def fillCache_def Let_def split: option.splits)

lemma refreshBounds_input [simp]:
  "fst (refreshBounds (s\<lparr> input_mouseX := a \<rparr>)) = fst (refreshBounds s)"
  "fst (refreshBounds (s\<lparr> input_mouseY := a \<rparr>)) = fst (refreshBounds s)"
  "fst (refreshBounds (s\<lparr> input_isMouseActive := b \<rparr>)) = fst (refreshBounds s)"
  "fst (refreshBounds (s\<lparr> input_keyboardActive := b \<rparr>)) = fst (refreshBounds s)"
  "fst (refreshBounds (s\<lparr> input_touchActive := b \<rparr>)) = fst (refreshBounds s)"
  "fst (refreshBounds (s\<lparr> viewport_x := a \<rparr>)) = fst (refreshBounds s)"
  "fst (refreshBounds (s\<lparr> viewport_y := a \<rparr>)) = fst (refreshBounds s)"
  by (simp_all add: refreshBounds_def fillCache_def computeBounds_def Let_def
      split: option.splits)

lemma updateViewportPosition_x:
  "viewport_x (updateViewportPosition tx ty smooth s) =
     (let c = jmax (minX (fst (refreshBounds s))) (jmin (maxX (fst (refreshBounds s))) tx)
      in if smooth then
           jadd (viewport_x s) (jmul (jsub c (viewport_x s))
             (if input_touchActive s then touchSmoothingFactor else smoothingFactor))
         else c)"
  by (simp add: updateViewportPosition_def abc_unfold Let_def)

lemma updateViewportPosition_y:
  "viewport_y (updateViewportPosition tx ty smooth s) =
     (let c = jmax (minY (fst (refreshBounds s))) (jmin (maxY (fst (refreshBounds s))) ty)
      in if smooth then
           jadd (viewport_y s) (jmul (jsub c (viewport_y s))
             (if input_touchActive s then touchSmoothingFactor else smoothingFactor))
         else c)"
  by (simp add: updateViewportPosition_def abc_unfold Let_def)

lemmas handler_defs = handleMouseMove_def handleTouchStart_def handleTouchMove_def
  handleTouchEnd_def handleKeyDown_def handleKeyUp_def animationFrame_def handleBlur_def
  handleVisibilityChange_def handleResize_def handleOrientationChange_def
  mouseToViewportPosition_def updateViewportPosition_def moveViewportByDelta_def
  applyBoundaryConstraints_def refreshBounds_def fillCache_def computeBounds_def
  boundaryPadding_def smoothingFactor_def touchSmoothingFactor_def
  getKeyboardMoveSpeed_def moveLoop_def startKeyboardMovement_def stopKeyboardMovement_def
  requestAnimationFrame_def cancelAnimationFrame_def keyboardDeltas_def
  leftPressed_def rightPressed_def upPressed_def downPressed_def navigationKeys_def
  updateResponsiveState_def detectDeviceType_def

text \<open>
  C2, as the code has it. \<^verbatim>\<open>applyBoundaryConstraints\<close> always returns, leaving bounds
  \<open>b\<close> in the cache (the freshly computed ones when there were none before). On an
  axis where those bounds have the maximum below the minimum, every input other than
  \<^verbatim>\<open>NaN\<close> is mapped to the minimum \<open>minX b\<close> (that is \<^verbatim>\<open>radius / width + padding\<close>), a
  constant; it is not mapped to the midpoint 0.5.
\<close>

theorem degenerate_clamp_is_lower_bound:
  assumes "cachedBounds (snd (applyBoundaryConstraints x y s)) = Some b"
  shows "(jlt (maxX b) (minX b) \<and> x \<noteq> NaN \<longrightarrow>
            fst (fst (applyBoundaryConstraints x y s)) = minX b) \<and>
         (jlt (maxY b) (minY b) \<and> y \<noteq> NaN \<longrightarrow>
            snd (fst (applyBoundaryConstraints x y s)) = minY b) \<and>
         (cachedBounds s = None \<longrightarrow> b = computeBounds s) \<and>
         (\<exists>c. cachedBounds (snd (applyBoundaryConstraints x' y' s)) = Some c)"
proof -
  obtain c where c: "cachedBounds (snd (applyBoundaryConstraints x y s)) = Some c"
    and r: "fst (applyBoundaryConstraints x y s) =
         (jmax (minX c) (jmin (maxX c) x), jmax (minY c) (jmin (maxY c) y))"
    using applyBoundaryConstraints_cached by blast
  from c assms have cb: "c = b" by simp
  have fresh: "cachedBounds s = None \<longrightarrow> b = computeBounds s"
    using assms applyBoundaryConstraints_fresh [of s x y] by auto
  have total: "\<exists>c. cachedBounds (snd (applyBoundaryConstraints x' y' s)) = Some c"
    using applyBoundaryConstraints_cached [of x' y' s] by blast
  from r cb fresh total show ?thesis by (simp add: clamp_degenerate)
qed

text \<open>
  Witness for C2: a 100 x 100 container, where the radius is 60 and both axes are
  degenerate; the inputs 0.3 and 0.9 both go to 0.61.
\<close>

theorem degenerate_clamp_is_lower_bound_witness:
  "cachedBounds (snd (applyBoundaryConstraints (Fin 0.3) (Fin 0.9) (init (Fin 100) (Fin 100)))) =
     Some \<lparr> minX = Fin 0.61, maxX = Fin 0.39, minY = Fin 0.61, maxY = Fin 0.39 \<rparr> \<and>
   fst (applyBoundaryConstraints (Fin 0.3) (Fin 0.9) (init (Fin 100) (Fin 100))) =
     (Fin 0.61, Fin 0.61)"
proof -
  let ?s = "init (Fin 100) (Fin 100)"
  let ?b = "\<lparr> minX = Fin 0.61, maxX = Fin 0.39, minY = Fin 0.61, maxY = Fin 0.39 \<rparr>"
  have c: "cachedBounds (snd (applyBoundaryConstraints (Fin 0.3) (Fin 0.9) ?s)) = Some ?b"
    by (simp add: applyBoundaryConstraints_def refreshBounds_def fillCache_def
        computeBounds_def init_defs)
  from degenerate_clamp_is_lower_bound [OF c] c show ?thesis
    by (simp add: prod_eq_iff)
qed

text \<open>
  Counterexample to C2 as stated: in the 100 x 100 container the computed \<open>maxX\<close> is
  below \<open>minX\<close>, and the position (0.3, 0.3) is clamped to (0.61, 0.61), not to the
  midpoint (0.5, 0.5).
\<close>

theorem degenerate_clamp_not_midpoint:
  "jlt (maxX (computeBounds (init (Fin 100) (Fin 100))))
       (minX (computeBounds (init (Fin 100) (Fin 100)))) \<and>
   fst (applyBoundaryConstraints (Fin 0.3) (Fin 0.3) (init (Fin 100) (Fin 100))) =
     (Fin 0.61, Fin 0.61) \<and>
   fst (applyBoundaryConstraints (Fin 0.3) (Fin 0.3) (init (Fin 100) (Fin 100))) \<noteq>
     (Fin 0.5, Fin 0.5)"
  by (simp add: applyBoundaryConstraints_def refreshBounds_def fillCache_def
        computeBounds_def init_defs)

text \<open>
  C10. For finite arguments \<^verbatim>\<open>setViewportPosition\<close> stores exactly
  \<open>max 0 (min 1 nx)\<close> and \<open>max 0 (min 1 ny)\<close>: it clamps into the unit square and does
  not consult the boundary rectangle. In a 1000 x 800 container right after start-up the
  rectangle begins at \<open>minX = 0.1\<close>, and \<^verbatim>\<open>setViewportPosition(0, 0)\<close> puts the
  viewport at \<open>x = 0\<close>, inside the unit square and outside the rectangle.
\<close>

theorem setViewportPosition_unit_square:
  "viewport_x (setViewportPosition (Fin nx) (Fin ny) s) = Fin (max 0 (min 1 nx)) \<and>
   viewport_y (setViewportPosition (Fin nx) (Fin ny) s) = Fin (max 0 (min 1 ny)) \<and>
   viewport_x (setViewportPosition (Fin 0) (Fin 0) (init (Fin 1000) (Fin 800))) = Fin 0 \<and>
   minX (computeBounds (init (Fin 1000) (Fin 800))) = Fin 0.1 \<and>
   jlt (viewport_x (setViewportPosition (Fin 0) (Fin 0) (init (Fin 1000) (Fin 800))))
       (minX (computeBounds (init (Fin 1000) (Fin 800))))"
proof -
  have general:
    "viewport_x (setViewportPosition (Fin nx) (Fin ny) s) = Fin (max 0 (min 1 nx)) \<and>
     viewport_y (setViewportPosition (Fin nx) (Fin ny) s) = Fin (max 0 (min 1 ny))"
    by (simp add: setViewportPosition_def)
  have x0: "viewport_x (setViewportPosition (Fin 0) (Fin 0) (init (Fin 1000) (Fin 800))) = Fin 0"
    by (simp add: setViewportPosition_def)
  have lo: "minX (computeBounds (init (Fin 1000) (Fin 800))) = Fin 0.1"
    by (simp add: computeBounds_def boundaryPadding_def init_defs)
  from general x0 lo show ?thesis by simp
qed

section \<open>Pointer and touch samples\<close>

text \<open>
  C4, as the code has it. For a loaded viewer, let \<open>c\<close> be the sample's target
  \<^verbatim>\<open>(clientX / width, clientY / height)\<close> constrained by the bounds the controller
  uses. A mouse-move sample sets each coordinate to
  \<^verbatim>\<open>current + (c - current) * \<alpha>\<close>, once, with \<open>\<alpha> = 0.4\<close> while the touch flag is set
  and \<open>0.15\<close> otherwise; a touch-move sample (handled only while the touch flag is set)
  does the same with \<open>\<alpha> = 0.4\<close>; a touch-start sample stores \<open>c\<close> itself, without
  smoothing.
\<close>

theorem pointer_sample_smoothing:
  assumes "isLoaded s"
  shows
   "let c = fst (applyBoundaryConstraints (jdiv clientX (container_width s))
                   (jdiv clientY (container_height s)) s);
        \<alpha> = (if input_touchActive s then Fin 0.4 else Fin 0.15)
    in viewport_x (handleMouseMove clientX clientY s) =
         jadd (viewport_x s) (jmul (jsub (fst c) (viewport_x s)) \<alpha>) \<and>
       viewport_y (handleMouseMove clientX clientY s) =
         jadd (viewport_y s) (jmul (jsub (snd c) (viewport_y s)) \<alpha>) \<and>
       (input_touchActive s \<longrightarrow>
          viewport_x (handleTouchMove (Some (clientX, clientY)) s) =
            jadd (viewport_x s) (jmul (jsub (fst c) (viewport_x s)) (Fin 0.4)) \<and>
          viewport_y (handleTouchMove (Some (clientX, clientY)) s) =
            jadd (viewport_y s) (jmul (jsub (snd c) (viewport_y s)) (Fin 0.4))) \<and>
       viewport_x (handleTouchStart (Some (clientX, clientY)) s) = fst c \<and>
       viewport_y (handleTouchStart (Some (clientX, clientY)) s) = snd c"
proof -
  let ?c = "fst (applyBoundaryConstraints (jdiv clientX (container_width s))
                   (jdiv clientY (container_height s)) s)"
  have mouse:
    "viewport_x (handleMouseMove clientX clientY s) =
       jadd (viewport_x s) (jmul (jsub (fst ?c) (viewport_x s))
         (if input_touchActive s then Fin 0.4 else Fin 0.15))"
    "viewport_y (handleMouseMove clientX clientY s) =
       jadd (viewport_y s) (jmul (jsub (snd ?c) (viewport_y s))
         (if input_touchActive s then Fin 0.4 else Fin 0.15))"
    using assms
    by (simp_all add: handleMouseMove_def mouseToViewportPosition_def Let_def
        updateViewportPosition_x updateViewportPosition_y abc_unfold refreshBounds_again
        clamp_idem touchSmoothingFactor_def smoothingFactor_def split: prod.splits)
  have move:
    "input_touchActive s \<Longrightarrow>
       viewport_x (handleTouchMove (Some (clientX, clientY)) s) =
         jadd (viewport_x s) (jmul (jsub (fst ?c) (viewport_x s)) (Fin 0.4)) \<and>
       viewport_y (handleTouchMove (Some (clientX, clientY)) s) =
         jadd (viewport_y s) (jmul (jsub (snd ?c) (viewport_y s)) (Fin 0.4))"
    using assms
    by (simp add: handleTouchMove_def mouseToViewportPosition_def Let_def
        updateViewportPosition_x updateViewportPosition_y abc_unfold refreshBounds_again
        clamp_idem touchSmoothingFactor_def smoothingFactor_def split: prod.splits)
  have start:
    "viewport_x (handleTouchStart (Some (clientX, clientY)) s) = fst ?c"
    "viewport_y (handleTouchStart (Some (clientX, clientY)) s) = snd ?c"
    using assms
    by (simp_all add: handleTouchStart_def mouseToViewportPosition_def Let_def
        updateViewportPosition_x updateViewportPosition_y abc_unfold refreshBounds_again
        clamp_idem split: prod.splits)
  from mouse move start show ?thesis by (simp add: Let_def)
qed

text \<open>
  Witness for C4: a 1000 x 800 container once the self-test timer has put the viewport
  back at the centre, sample at (50, 50), whose constrained target is (0.1, 0.12). From
  the centre, a mouse move gives \<open>x = 0.44\<close> when no touch is
  active, and \<open>x = 0.34\<close> after a touch start; a touch move gives \<open>x = 0.34\<close>.
\<close>

theorem pointer_sample_smoothing_witness:
  "isLoaded (handleTouchStart (Some (Fin 500, Fin 400)) (selfTestTimeout (init (Fin 1000) (Fin 800)))) \<and>
   input_touchActive (handleTouchStart (Some (Fin 500, Fin 400)) (selfTestTimeout (init (Fin 1000) (Fin 800)))) \<and>
   viewport_x (handleMouseMove (Fin 50) (Fin 50)
     (handleTouchStart (Some (Fin 500, Fin 400)) (selfTestTimeout (init (Fin 1000) (Fin 800))))) = Fin 0.34 \<and>
   viewport_x (handleTouchMove (Some (Fin 50, Fin 50))
     (handleTouchStart (Some (Fin 500, Fin 400)) (selfTestTimeout (init (Fin 1000) (Fin 800))))) = Fin 0.34 \<and>
   viewport_x (handleMouseMove (Fin 50) (Fin 50) (selfTestTimeout (init (Fin 1000) (Fin 800)))) = Fin 0.44"
proof -
  let ?s0 = "selfTestTimeout (init (Fin 1000) (Fin 800))"
  let ?s1 = "handleTouchStart (Some (Fin 500, Fin 400)) ?s0"
  have l0: "isLoaded ?s0" by (simp add: init_defs)
  have l1: "isLoaded ?s1" by (simp add: handler_defs init_defs)
  have t1: "input_touchActive ?s1" by (simp add: handler_defs init_defs)
  have t0: "\<not> input_touchActive ?s0" by (simp add: handler_defs init_defs)
  have x1: "viewport_x ?s1 = Fin 0.5" by (simp add: handler_defs init_defs)
  have x0: "viewport_x ?s0 = Fin 0.5" by (simp add: handler_defs init_defs)
  have c1: "fst (applyBoundaryConstraints (jdiv (Fin 50) (container_width ?s1))
               (jdiv (Fin 50) (container_height ?s1)) ?s1) = (Fin 0.1, Fin 0.12)"
    by (simp add: handler_defs init_defs)
  have c0: "fst (applyBoundaryConstraints (jdiv (Fin 50) (container_width ?s0))
               (jdiv (Fin 50) (container_height ?s0)) ?s0) = (Fin 0.1, Fin 0.12)"
    by (simp add: handler_defs init_defs)
  from pointer_sample_smoothing [OF l1, of "Fin 50" "Fin 50"]
       pointer_sample_smoothing [OF l0, of "Fin 50" "Fin 50"]
  show ?thesis
    unfolding Let_def c1 c0 by (simp add: l1 t1 t0 x1 x0)
qed

text \<open>
  Counterexample to C4 as stated: a touch-start sample at (50, 50) in the 1000 x 800
  container, from the centre (the self-test timer has fired). Its constrained target has \<open>x = 0.1\<close>; smoothing with
  \<open>\<alpha> = 0.4\<close> would give \<open>0.5 + (0.1 - 0.5) * 0.4 = 0.34\<close>, and the handler stores 0.1.
\<close>

theorem touch_start_sets_directly:
  "viewport_x (selfTestTimeout (init (Fin 1000) (Fin 800))) = Fin 0.5 \<and>
   fst (fst (applyBoundaryConstraints (jdiv (Fin 50) (Fin 1000)) (jdiv (Fin 50) (Fin 800))
              (selfTestTimeout (init (Fin 1000) (Fin 800))))) = Fin 0.1 \<and>
   input_touchActive (handleTouchStart (Some (Fin 50, Fin 50)) (selfTestTimeout (init (Fin 1000) (Fin 800)))) \<and>
   viewport_x (handleTouchStart (Some (Fin 50, Fin 50)) (selfTestTimeout (init (Fin 1000) (Fin 800)))) = Fin 0.1 \<and>
   jadd (Fin 0.5) (jmul (jsub (Fin 0.1) (Fin 0.5)) touchSmoothingFactor) = Fin 0.34 \<and>
   viewport_x (handleTouchStart (Some (Fin 50, Fin 50)) (selfTestTimeout (init (Fin 1000) (Fin 800)))) \<noteq>
     jadd (Fin 0.5) (jmul (jsub (Fin 0.1) (Fin 0.5)) touchSmoothingFactor)"
  by (simp add: handler_defs init_defs)

section \<open>Keyboard loop and the other input sources\<close>

text \<open>
  C6 on the code. In a 1000 x 800 container, with the viewport back at the centre after
  the self-test, \<^verbatim>\<open>arrowleft\<close> is pressed and one frame runs; then a mouse-move sample at the centre is processed. It clears the
  \<^verbatim>\<open>keyboardActive\<close> flag, but the \<^verbatim>\<open>moveLoop\<close> closure is still queued and
  \<^verbatim>\<open>isMoving\<close> is still set: the next frame moves the viewport by the keyboard delta
  \<open>-0.002\<close> (from 0.4983 to 0.4963) and queues the loop again. Separately, a
  \<^verbatim>\<open>mouseenter\<close> after a key press leaves \<^verbatim>\<open>isMouseActive\<close> and \<^verbatim>\<open>keyboardActive\<close>
  both set.
\<close>

theorem keyboard_loop_survives_pointer_sample:
  "(let s = run [SelfTestTimeout, KeyDown ''arrowleft'' (Fin 0), AnimationFrame (Fin 16.67),
                 MouseMove (Fin 500) (Fin 400)] (init (Fin 1000) (Fin 800));
        s' = step (AnimationFrame (Fin 33.34)) s;
        t = run [KeyDown ''arrowleft'' (Fin 0), MouseEnter] (init (Fin 1000) (Fin 800))
    in viewport_x s = Fin 0.4983 \<and> raf_pending s = Some (2, Fin 16.67) \<and>
       keyboard_isMoving s \<and> input_isMouseActive s \<and> input_keyboardActive s = False \<and>
       viewport_x s' = Fin 0.4963 \<and> raf_pending s' = Some (3, Fin 33.34) \<and>
       keyboard_isMoving s' \<and>
       input_isMouseActive t \<and> input_keyboardActive t)"
  by (simp add: handler_defs init_defs)

lemma keyboardDeltas_Fin:
  "keyboardDeltas keys (Fin m) =
     (Fin (fst (heldDirection keys) * m), Fin (snd (heldDirection keys) * m))"
  by (simp add: keyboardDeltas_def heldDirection_def Let_def)

lemma getKeyboardMoveSpeed_Fin:
  "container_width s = Fin w \<Longrightarrow>
   getKeyboardMoveSpeed s = Fin (if w < 480 then 0.003 else if w < 768 then 0.0025 else 0.002)"
  by (simp add: getKeyboardMoveSpeed_def)

lemma moveLoop_position:
  assumes "keyboard_isMoving s" "input_keysPressed s \<noteq> {}"
  shows "(viewport_x (moveLoop tPrev tNow s), viewport_y (moveLoop tPrev tNow s)) =
     (let moveSpeed = jmul (getKeyboardMoveSpeed s) (jdiv (jsub tNow tPrev) (Fin 16.67));
          d = keyboardDeltas (input_keysPressed s) moveSpeed
      in if jsne (fst d) (Fin 0) \<or> jsne (snd d) (Fin 0)
         then fst (applyBoundaryConstraints (jadd (viewport_x s) (fst d)) (jadd (viewport_y s) (snd d)) s)
         else (viewport_x s, viewport_y s))"
  using assms
  by (simp add: moveLoop_def moveViewportByDelta_def requestAnimationFrame_def Let_def abc_unfold
      split: prod.splits)

text \<open>
  C5, as the code has it. On a tick of the running loop with keys held, finite container
  width \<open>w\<close>, previous and current frame times \<open>tPrev\<close>, \<open>tNow\<close> and position
  \<open>(x, y)\<close>: the base speed is 0.003 for \<open>w < 480\<close>, 0.0025 for \<open>w < 768\<close> and 0.002
  otherwise; the speed is the base speed times \<^verbatim>\<open>(tNow - tPrev) / 16.67\<close> (the constant
  of the code, not \<^verbatim>\<open>1000 / 60\<close>); when the delta is not zero the position becomes
  \<open>(x + dx * speed, y + dy * speed)\<close> constrained by the boundary, set directly, and it
  is left alone when the delta is zero. In particular a 16.67 ms tick with only
  \<^verbatim>\<open>arrowleft\<close> held at width 1000 moves \<open>x\<close> by exactly \<open>-0.002\<close> before clamping.
\<close>

theorem keyboard_tick_displacement:
  assumes "keyboard_isMoving s" "input_keysPressed s \<noteq> {}"
      and "container_width s = Fin w" "viewport_x s = Fin x" "viewport_y s = Fin y"
  shows "let baseSpeed = (if w < 480 then 0.003 else if w < 768 then 0.0025 else 0.002);
             speed = baseSpeed * ((tNow - tPrev) / 16.67);
             (dx, dy) = heldDirection (input_keysPressed s);
             s' = moveLoop (Fin tPrev) (Fin tNow) s
         in getKeyboardMoveSpeed s = Fin baseSpeed \<and>
            (if dx * speed \<noteq> 0 \<or> dy * speed \<noteq> 0
             then (viewport_x s', viewport_y s') =
                    fst (applyBoundaryConstraints (Fin (x + dx * speed)) (Fin (y + dy * speed)) s)
             else (viewport_x s', viewport_y s') = (Fin x, Fin y)) \<and>
            (input_keysPressed s = {''arrowleft''} \<and> w = 1000 \<and> tNow - tPrev = 16.67 \<longrightarrow>
               (viewport_x s', viewport_y s') =
                 fst (applyBoundaryConstraints (Fin (x - 0.002)) (Fin y) s))"
proof -
  let ?b = "if w < 480 then 0.003 else if w < 768 then 0.0025 else (0.002::real)"
  let ?sp = "?b * ((tNow - tPrev) / 16.67)"
  let ?d = "heldDirection (input_keysPressed s)"
  let ?s' = "moveLoop (Fin tPrev) (Fin tNow) s"
  have ms: "jmul (getKeyboardMoveSpeed s) (jdiv (jsub (Fin tNow) (Fin tPrev)) (Fin 16.67)) = Fin ?sp"
    by (simp add: getKeyboardMoveSpeed_Fin [OF assms(3)])
  have pos: "(viewport_x ?s', viewport_y ?s') =
      (if fst ?d * ?sp \<noteq> 0 \<or> snd ?d * ?sp \<noteq> 0
       then fst (applyBoundaryConstraints (Fin (x + fst ?d * ?sp)) (Fin (y + snd ?d * ?sp)) s)
       else (Fin x, Fin y))"
    unfolding moveLoop_position [OF assms(1,2)] Let_def ms keyboardDeltas_Fin
    by (simp add: assms(4,5))
  have left: "input_keysPressed s = {''arrowleft''} \<Longrightarrow> ?d = (-1, 0)"
    by (simp add: heldDirection_def leftPressed_def rightPressed_def upPressed_def downPressed_def)
  have ex: "input_keysPressed s = {''arrowleft''} \<and> w = 1000 \<and> tNow - tPrev = 16.67 \<longrightarrow>
               (viewport_x ?s', viewport_y ?s') =
                 fst (applyBoundaryConstraints (Fin (x - 0.002)) (Fin y) s)"
    using pos left by auto
  show ?thesis
    using getKeyboardMoveSpeed_Fin [OF assms(3)] pos ex
    by (simp add: Let_def split: prod.splits)
qed

text \<open>
  Witness for C5: \<^verbatim>\<open>arrowleft\<close> pressed at time 0 in the 1000 x 800 container (after
  the self-test timer), one tick at 16.67 ms: the viewport goes from (0.5, 0.5) to (0.498, 0.5).
\<close>

theorem keyboard_tick_displacement_witness:
  "keyboard_isMoving (handleKeyDown ''arrowleft'' (Fin 0) (selfTestTimeout (init (Fin 1000) (Fin 800)))) \<and>
   input_keysPressed (handleKeyDown ''arrowleft'' (Fin 0) (selfTestTimeout (init (Fin 1000) (Fin 800)))) =
     {''arrowleft''} \<and>
   viewport_x (moveLoop (Fin 0) (Fin 16.67)
     (handleKeyDown ''arrowleft'' (Fin 0) (selfTestTimeout (init (Fin 1000) (Fin 800))))) = Fin 0.498 \<and>
   viewport_y (moveLoop (Fin 0) (Fin 16.67)
     (handleKeyDown ''arrowleft'' (Fin 0) (selfTestTimeout (init (Fin 1000) (Fin 800))))) = Fin 0.5"
proof -
  let ?s = "handleKeyDown ''arrowleft'' (Fin 0) (selfTestTimeout (init (Fin 1000) (Fin 800)))"
  have h1: "keyboard_isMoving ?s" by (simp add: handler_defs init_defs)
  have k: "input_keysPressed ?s = {''arrowleft''}" by (simp add: handler_defs init_defs)
  have h2: "input_keysPressed ?s \<noteq> {}" by (simp add: k)
  have h3: "container_width ?s = Fin 1000" by (simp add: handler_defs init_defs)
  have h4: "viewport_x ?s = Fin 0.5" by (simp add: handler_defs init_defs)
  have h5: "viewport_y ?s = Fin 0.5" by (simp add: handler_defs init_defs)
  have c: "fst (applyBoundaryConstraints (Fin (0.5 - 0.002)) (Fin 0.5) ?s) = (Fin 0.498, Fin 0.5)"
    by (simp add: handler_defs init_defs)
  from keyboard_tick_displacement [OF h1 h2 h3 h4 h5, where tNow = "16.67" and tPrev = 0] h1 k c
  show ?thesis by (simp add: Let_def split: prod.splits)
qed

text \<open>
  Counterexample to C5 as stated: with the frame scale \<^verbatim>\<open>dt / (1000 / 60)\<close> of the
  claim, the 16.67 ms tick above would end at \<open>0.5 - 0.002 * (16.67 / (1000 / 60))\<close>,
  which the boundary leaves unchanged; the code ends at 0.498, a different number. And
  a tick of exactly \<open>1000 / 60\<close> ms does not move \<open>x\<close> by \<open>-0.002\<close>.
\<close>

theorem keyboard_tick_uses_16_67:
  "(let s = handleKeyDown ''arrowleft'' (Fin 0) (selfTestTimeout (init (Fin 1000) (Fin 800)))
    in viewport_x s = Fin 0.5 \<and>
       viewport_x (moveLoop (Fin 0) (Fin 16.67) s) = Fin 0.498 \<and>
       fst (fst (applyBoundaryConstraints
         (Fin (0.5 + (- 1) * 0.002 * (16.67 / (1000 / 60)))) (Fin 0.5) s)) =
         Fin (0.5 + (- 1) * 0.002 * (16.67 / (1000 / 60))) \<and>
       viewport_x (moveLoop (Fin 0) (Fin 16.67) s) \<noteq>
         Fin (0.5 + (- 1) * 0.002 * (16.67 / (1000 / 60))) \<and>
       viewport_x (moveLoop (Fin 0) (Fin (1000 / 60)) s) \<noteq> Fin (0.5 - 0.002))"
  by (simp add: handler_defs init_defs)

lemma scaled_unit_vector:
  fixes u v m :: real
  assumes "u\<^sup>2 + v\<^sup>2 = 1"
  shows "sqrt ((u * m)\<^sup>2 + (v * m)\<^sup>2) = \<bar>m\<bar>"
proof -
  have "(u * m)\<^sup>2 + (v * m)\<^sup>2 = (u\<^sup>2 + v\<^sup>2) * m\<^sup>2"
    by (simp add: power_mult_distrib distrib_right)
  with assms show ?thesis by simp
qed

text \<open>
  A tick of the running loop whose target the boundary constraints leave as it is moves
  the viewport by the held direction times the move speed.
\<close>

lemma applyBoundaryConstraints_keys:
  "fst (applyBoundaryConstraints a b (s\<lparr> input_keysPressed := K \<rparr>)) =
   fst (applyBoundaryConstraints a b s)"
  by (simp add: abc_unfold refreshBounds_def fillCache_def computeBounds_def Let_def
      split: option.splits)

lemma moveLoop_unclamped:
  assumes cw: "container_width s = Fin w"
      and xy: "viewport_x s = Fin x" "viewport_y s = Fin y"
      and mv: "keyboard_isMoving s"
      and ne: "K \<noteq> {}"
      and m: "m = (if w < 480 then 0.003 else if w < 768 then 0.0025 else 0.002) *
                  ((tNow - tPrev) / 16.67)"
      and un: "unclamped (Fin (x + fst (heldDirection K) * m)) (Fin (y + snd (heldDirection K) * m)) s"
  shows "viewport_x (moveLoop (Fin tPrev) (Fin tNow) (s\<lparr> input_keysPressed := K \<rparr>)) =
           Fin (x + fst (heldDirection K) * m) \<and>
         viewport_y (moveLoop (Fin tPrev) (Fin tNow) (s\<lparr> input_keysPressed := K \<rparr>)) =
           Fin (y + snd (heldDirection K) * m)"
proof -
  let ?s = "s\<lparr> input_keysPressed := K \<rparr>"
  have a: "keyboard_isMoving ?s" "input_keysPressed ?s \<noteq> {}" using mv ne by simp_all
  have cw': "container_width ?s = Fin w" using cw by simp
  have ms: "jmul (getKeyboardMoveSpeed ?s) (jdiv (jsub (Fin tNow) (Fin tPrev)) (Fin 16.67)) = Fin m"
    unfolding m by (simp add: getKeyboardMoveSpeed_Fin [OF cw'])
  from un have u: "fst (applyBoundaryConstraints (Fin (x + fst (heldDirection K) * m))
      (Fin (y + snd (heldDirection K) * m)) s) =
      (Fin (x + fst (heldDirection K) * m), Fin (y + snd (heldDirection K) * m))"
    by (simp add: unclamped_def)
  have "(viewport_x (moveLoop (Fin tPrev) (Fin tNow) ?s),
         viewport_y (moveLoop (Fin tPrev) (Fin tNow) ?s)) =
        (Fin (x + fst (heldDirection K) * m), Fin (y + snd (heldDirection K) * m))"
    unfolding moveLoop_position [OF a] Let_def ms keyboardDeltas_Fin
    using u by (simp add: xy applyBoundaryConstraints_keys)
  then show ?thesis by simp
qed

lemma held_nonempty:
  "leftPressed K \<noteq> rightPressed K \<Longrightarrow> K \<noteq> {}"
  "directionsHeld K = 1 \<Longrightarrow> K \<noteq> {}"
  by (auto simp: directionsHeld_def leftPressed_def rightPressed_def upPressed_def
      downPressed_def)

lemma clamp_below:
  fixes lo hi e :: real
  shows "0 < e \<Longrightarrow> lo \<le> hi \<Longrightarrow> max lo (min hi (lo - e)) = lo"
  by (simp add: max_def min_def)

lemma corner_clamp:
  "max (1 / 10) (min (9 / 10) (1 / 10 - 1 / (500 * sqrt 2))) = (1 / 10 :: real)"
  "max (3 / 25) (min (22 / 25) (3 / 25 - 1 / (500 * sqrt 2))) = (3 / 25 :: real)"
  by (rule clamp_below; simp)+

lemma component_le_length:
  fixes a b :: real
  shows "\<bar>a\<bar> \<le> sqrt (a\<^sup>2 + b\<^sup>2)" "\<bar>b\<bar> \<le> sqrt (a\<^sup>2 + b\<^sup>2)"
  by (simp_all add: real_le_rsqrt)

lemma small_step_inside:
  fixes a :: real
  assumes "\<bar>a\<bar> \<le> 0.002"
  shows "max 0.1 (min 0.9 (0.5 + a)) = 0.5 + a" "max 0.12 (min 0.88 (0.5 + a)) = 0.5 + a"
proof -
  from assms have "\<bar>a\<bar> \<le> 1 / 500" by simp
  then have "3 / 25 \<le> 1 / 2 + a \<and> 1 / 2 + a \<le> 22 / 25" by linarith
  then show "max 0.1 (min 0.9 (0.5 + a)) = 0.5 + a" "max 0.12 (min 0.88 (0.5 + a)) = 0.5 + a"
    by (auto simp: max_def min_def)
qed

lemma centre_probe:
  "keyboard_isMoving (run [SelfTestTimeout, KeyDown ''arrowleft'' (Fin 0)] (init (Fin 1000) (Fin 800)))"
  "container_width (run [SelfTestTimeout, KeyDown ''arrowleft'' (Fin 0)] (init (Fin 1000) (Fin 800))) =
     Fin 1000"
  "viewport_x (run [SelfTestTimeout, KeyDown ''arrowleft'' (Fin 0)] (init (Fin 1000) (Fin 800))) =
     Fin 0.5"
  "viewport_y (run [SelfTestTimeout, KeyDown ''arrowleft'' (Fin 0)] (init (Fin 1000) (Fin 800))) =
     Fin 0.5"
  "fst (applyBoundaryConstraints (Fin u) (Fin v)
     (run [SelfTestTimeout, KeyDown ''arrowleft'' (Fin 0)] (init (Fin 1000) (Fin 800)))) =
     (Fin (max 0.1 (min 0.9 u)), Fin (max 0.12 (min 0.88 v)))"
  "jmul (getKeyboardMoveSpeed (run [SelfTestTimeout, KeyDown ''arrowleft'' (Fin 0)]
     (init (Fin 1000) (Fin 800)))) (jdiv (jsub (Fin 16.67) (Fin 0)) (Fin 16.67)) = Fin 0.002"
  by (simp_all add: handler_defs init_defs)

text \<open>
  C9, for the deltas and for the displacement where the boundary does not interfere. In
  one tick of the running loop (finite container width and frame times, hence one
  finite move speed \<open>m\<close>, at position \<open>(x, y)\<close>), a key set \<open>K\<close> holding exactly one
  horizontal and exactly one vertical direction and a key set \<open>K1\<close> holding a single
  direction produce deltas \<open>(a, b)\<close> and \<open>(a1, b1)\<close> of the same Euclidean length
  \<open>\<bar>m\<bar>\<close>. When the boundary constraints leave the target \<open>(x + a, y + b)\<close> as it is,
  \<^verbatim>\<open>moveLoop\<close> with \<open>K\<close> held moves the viewport there, a displacement of length \<open>\<bar>m\<bar>\<close>;
  likewise for \<open>K1\<close> and \<open>(x + a1, y + b1)\<close>. In the exact arithmetic of the model the
  two lengths are equal; the code's binary64 values differ from them by rounding only.
\<close>

theorem diagonal_speed_invariance:
  assumes "container_width s = Fin w" "viewport_x s = Fin x" "viewport_y s = Fin y"
      and "keyboard_isMoving s"
      and "leftPressed K \<noteq> rightPressed K" and "upPressed K \<noteq> downPressed K"
      and "directionsHeld K1 = 1"
  shows "\<exists>m a b a1 b1.
           jmul (getKeyboardMoveSpeed s) (jdiv (jsub (Fin tNow) (Fin tPrev)) (Fin 16.67)) = Fin m \<and>
           keyboardDeltas K (Fin m) = (Fin a, Fin b) \<and>
           keyboardDeltas K1 (Fin m) = (Fin a1, Fin b1) \<and>
           sqrt (a\<^sup>2 + b\<^sup>2) = \<bar>m\<bar> \<and> sqrt (a1\<^sup>2 + b1\<^sup>2) = \<bar>m\<bar> \<and>
           (unclamped (Fin (x + a)) (Fin (y + b)) s \<longrightarrow>
              viewport_x (moveLoop (Fin tPrev) (Fin tNow) (s\<lparr> input_keysPressed := K \<rparr>)) =
                Fin (x + a) \<and>
              viewport_y (moveLoop (Fin tPrev) (Fin tNow) (s\<lparr> input_keysPressed := K \<rparr>)) =
                Fin (y + b)) \<and>
           (unclamped (Fin (x + a1)) (Fin (y + b1)) s \<longrightarrow>
              viewport_x (moveLoop (Fin tPrev) (Fin tNow) (s\<lparr> input_keysPressed := K1 \<rparr>)) =
                Fin (x + a1) \<and>
              viewport_y (moveLoop (Fin tPrev) (Fin tNow) (s\<lparr> input_keysPressed := K1 \<rparr>)) =
                Fin (y + b1))"
proof -
  let ?b = "if w < 480 then 0.003 else if w < 768 then 0.0025 else (0.002::real)"
  define m where "m = ?b * ((tNow - tPrev) / 16.67)"
  have ms: "jmul (getKeyboardMoveSpeed s) (jdiv (jsub (Fin tNow) (Fin tPrev)) (Fin 16.67)) = Fin m"
    unfolding m_def by (simp add: getKeyboardMoveSpeed_Fin [OF assms(1)])
  have half: "(1 / sqrt 2)\<^sup>2 = (1 / 2 :: real)"
    by (simp add: power_divide)
  have diag: "(fst (heldDirection K))\<^sup>2 + (snd (heldDirection K))\<^sup>2 = 1"
    using assms(5,6) by (auto simp: heldDirection_def Let_def power_mult_distrib half)
  have single: "(fst (heldDirection K1))\<^sup>2 + (snd (heldDirection K1))\<^sup>2 = 1"
    using assms(7) by (auto simp: heldDirection_def directionsHeld_def Let_def split: if_splits)
  note mv = moveLoop_unclamped [OF assms(1-4) _ m_def]
  from mv [OF held_nonempty(1) [OF assms(5)]] mv [OF held_nonempty(2) [OF assms(7)]]
       scaled_unit_vector [OF diag, of m] scaled_unit_vector [OF single, of m]
  show ?thesis
    unfolding ms keyboardDeltas_Fin by blast
qed

text \<open>
  Witness for C9: the 16.67 ms tick at the centre of the 1000 x 800 container, where
  the move speed is 0.002 and neither target is clamped; \<^verbatim>\<open>arrowleft\<close> with \<^verbatim>\<open>arrowup\<close>
  against \<^verbatim>\<open>arrowright\<close> alone.
\<close>

theorem diagonal_speed_invariance_witness:
  "\<exists>a b a1 b1.
     viewport_x (moveLoop (Fin 0) (Fin 16.67)
       ((run [SelfTestTimeout, KeyDown ''arrowleft'' (Fin 0)] (init (Fin 1000) (Fin 800)))
          \<lparr> input_keysPressed := {''arrowleft'', ''arrowup''} \<rparr>)) = Fin (0.5 + a) \<and>
     viewport_y (moveLoop (Fin 0) (Fin 16.67)
       ((run [SelfTestTimeout, KeyDown ''arrowleft'' (Fin 0)] (init (Fin 1000) (Fin 800)))
          \<lparr> input_keysPressed := {''arrowleft'', ''arrowup''} \<rparr>)) = Fin (0.5 + b) \<and>
     viewport_x (moveLoop (Fin 0) (Fin 16.67)
       ((run [SelfTestTimeout, KeyDown ''arrowleft'' (Fin 0)] (init (Fin 1000) (Fin 800)))
          \<lparr> input_keysPressed := {''arrowright''} \<rparr>)) = Fin (0.5 + a1) \<and>
     viewport_y (moveLoop (Fin 0) (Fin 16.67)
       ((run [SelfTestTimeout, KeyDown ''arrowleft'' (Fin 0)] (init (Fin 1000) (Fin 800)))
          \<lparr> input_keysPressed := {''arrowright''} \<rparr>)) = Fin (0.5 + b1) \<and>
     sqrt (a\<^sup>2 + b\<^sup>2) = 0.002 \<and> sqrt (a1\<^sup>2 + b1\<^sup>2) = 0.002"
proof -
  let ?s = "run [SelfTestTimeout, KeyDown ''arrowleft'' (Fin 0)] (init (Fin 1000) (Fin 800))"
  have h5: "leftPressed {''arrowleft'', ''arrowup''} \<noteq> rightPressed {''arrowleft'', ''arrowup''}"
    by (simp add: leftPressed_def rightPressed_def)
  have h6: "upPressed {''arrowleft'', ''arrowup''} \<noteq> downPressed {''arrowleft'', ''arrowup''}"
    by (simp add: upPressed_def downPressed_def)
  have h7: "directionsHeld {''arrowright''} = 1"
    by (simp add: directionsHeld_def leftPressed_def rightPressed_def upPressed_def downPressed_def)
  from diagonal_speed_invariance [OF centre_probe(2,3,4,1) h5 h6 h7,
      where tNow = "16.67" and tPrev = 0]
  obtain m a b a1 b1 where m: "Fin 0.002 = Fin m"
    and n: "sqrt (a\<^sup>2 + b\<^sup>2) = \<bar>m\<bar>" and n1: "sqrt (a1\<^sup>2 + b1\<^sup>2) = \<bar>m\<bar>"
    and d: "unclamped (Fin (0.5 + a)) (Fin (0.5 + b)) ?s \<longrightarrow>
              viewport_x (moveLoop (Fin 0) (Fin 16.67)
                (?s\<lparr> input_keysPressed := {''arrowleft'', ''arrowup''} \<rparr>)) = Fin (0.5 + a) \<and>
              viewport_y (moveLoop (Fin 0) (Fin 16.67)
                (?s\<lparr> input_keysPressed := {''arrowleft'', ''arrowup''} \<rparr>)) = Fin (0.5 + b)"
    and d1: "unclamped (Fin (0.5 + a1)) (Fin (0.5 + b1)) ?s \<longrightarrow>
              viewport_x (moveLoop (Fin 0) (Fin 16.67)
                (?s\<lparr> input_keysPressed := {''arrowright''} \<rparr>)) = Fin (0.5 + a1) \<and>
              viewport_y (moveLoop (Fin 0) (Fin 16.67)
                (?s\<lparr> input_keysPressed := {''arrowright''} \<rparr>)) = Fin (0.5 + b1)"
    unfolding centre_probe(6) by blast
  from m have m2: "\<bar>m\<bar> = 0.002" by simp
  have le: "\<bar>a\<bar> \<le> 0.002" "\<bar>b\<bar> \<le> 0.002" "\<bar>a1\<bar> \<le> 0.002" "\<bar>b1\<bar> \<le> 0.002"
    using component_le_length [where a = a and b = b]
      component_le_length [where a = a1 and b = b1]
    unfolding n n1 m2 by simp_all
  have u: "unclamped (Fin (0.5 + a)) (Fin (0.5 + b)) ?s"
    unfolding unclamped_def centre_probe(5)
    using small_step_inside [OF le(1)] small_step_inside [OF le(2)] by simp
  have u1: "unclamped (Fin (0.5 + a1)) (Fin (0.5 + b1)) ?s"
    unfolding unclamped_def centre_probe(5)
    using small_step_inside [OF le(3)] small_step_inside [OF le(4)] by simp
  from d u d1 u1 n n1 m2 show ?thesis by auto
qed

text \<open>
  Counterexample to C9 as stated. A touch start at (0, 0) puts the viewport in the
  corner (0.1, 0.12) of the 1000 x 800 rectangle. A 16.67 ms tick with \<^verbatim>\<open>arrowleft\<close> and
  \<^verbatim>\<open>arrowup\<close> held leaves it there, a displacement of length 0, while the same tick
  with \<^verbatim>\<open>arrowright\<close> alone moves it to (0.102, 0.12), a displacement of length 0.002.
\<close>

theorem diagonal_tick_clamped_at_corner:
  "viewport_x (run [SelfTestTimeout, TouchStart (Some (Fin 0, Fin 0)), TouchEnd True,
      KeyDown ''arrowleft'' (Fin 0), KeyDown ''arrowup'' (Fin 0)]
      (init (Fin 1000) (Fin 800))) = Fin 0.1 \<and>
   viewport_y (run [SelfTestTimeout, TouchStart (Some (Fin 0, Fin 0)), TouchEnd True,
      KeyDown ''arrowleft'' (Fin 0), KeyDown ''arrowup'' (Fin 0)]
      (init (Fin 1000) (Fin 800))) = Fin 0.12 \<and>
   viewport_x (run [SelfTestTimeout, TouchStart (Some (Fin 0, Fin 0)), TouchEnd True,
      KeyDown ''arrowleft'' (Fin 0), KeyDown ''arrowup'' (Fin 0), AnimationFrame (Fin 16.67)]
      (init (Fin 1000) (Fin 800))) = Fin 0.1 \<and>
   viewport_y (run [SelfTestTimeout, TouchStart (Some (Fin 0, Fin 0)), TouchEnd True,
      KeyDown ''arrowleft'' (Fin 0), KeyDown ''arrowup'' (Fin 0), AnimationFrame (Fin 16.67)]
      (init (Fin 1000) (Fin 800))) = Fin 0.12 \<and>
   viewport_x (run [SelfTestTimeout, TouchStart (Some (Fin 0, Fin 0)), TouchEnd True,
      KeyDown ''arrowright'' (Fin 0)]
      (init (Fin 1000) (Fin 800))) = Fin 0.1 \<and>
   viewport_y (run [SelfTestTimeout, TouchStart (Some (Fin 0, Fin 0)), TouchEnd True,
      KeyDown ''arrowright'' (Fin 0)]
      (init (Fin 1000) (Fin 800))) = Fin 0.12 \<and>
   viewport_x (run [SelfTestTimeout, TouchStart (Some (Fin 0, Fin 0)), TouchEnd True,
      KeyDown ''arrowright'' (Fin 0), AnimationFrame (Fin 16.67)]
      (init (Fin 1000) (Fin 800))) = Fin 0.102 \<and>
   viewport_y (run [SelfTestTimeout, TouchStart (Some (Fin 0, Fin 0)), TouchEnd True,
      KeyDown ''arrowright'' (Fin 0), AnimationFrame (Fin 16.67)]
      (init (Fin 1000) (Fin 800))) = Fin 0.12"
  by (simp add: handler_defs init_defs corner_clamp)

section \<open>The bounds cache\<close>

text \<open>
  C7 on the code. The viewer starts at 1920 x 1080, where the radius is 80 (the device
  type is still the one detected on the 0 x 0 container); a mouse-move sample fills the
  cache; the window is resized to 1000 x 1000 and back to 1920 x 1080, which sets the
  radius to 162. The container size now equals the size the cache was filled at, so
  \<^verbatim>\<open>applyBoundaryConstraints\<close> reuses the bounds of radius 80 and clamps (0, 0) to
  (37/600, 127/1350), where bounds recomputed from the current radius give
  (167/1600, 17/100).
\<close>

theorem stale_bounds_after_radius_change:
  "(let s = run [MouseMove (Fin 100) (Fin 100), Resize (Fin 1000) (Fin 1000),
                 Resize (Fin 1920) (Fin 1080)] (init (Fin 1920) (Fin 1080))
    in viewport_radius (init (Fin 1920) (Fin 1080)) = Fin 80 \<and>
       viewport_radius s = Fin 162 \<and>
       container_width s = Fin 1920 \<and> container_height s = Fin 1080 \<and>
       lastContainerSize_width s = Fin 1920 \<and> lastContainerSize_height s = Fin 1080 \<and>
       fst (applyBoundaryConstraints (Fin 0) (Fin 0) s) = (Fin (37 / 600), Fin (127 / 1350)) \<and>
       recomputedConstraints (Fin 0) (Fin 0) s = (Fin (167 / 1600), Fin (17 / 100)) \<and>
       fst (applyBoundaryConstraints (Fin 0) (Fin 0) s) \<noteq> recomputedConstraints (Fin 0) (Fin 0) s)"
  by (simp add: handler_defs init_defs recomputedConstraints_def)

section \<open>Boundary containment\<close>

lemma is_finite_iff: "is_finite v = (\<exists>a. v = Fin a)"
  by (cases v) auto

lemma coherent_refresh:
  assumes "coherent s"
  shows "refreshBounds s =
     (computeBounds s,
      s\<lparr> cachedBounds := Some (computeBounds s),
         lastContainerSize_width := container_width s,
         lastContainerSize_height := container_height s \<rparr>)"
proof (cases "cachedBounds s")
  case None
  then show ?thesis by (simp add: refreshBounds_def fillCache_def Let_def)
next
  case (Some c)
  with assms have c: "cachedBounds s = Some (computeBounds s)"
    and w: "lastContainerSize_width s = container_width s"
    and h: "lastContainerSize_height s = container_height s"
    by (simp_all add: coherent_def)
  have same: "s\<lparr> cachedBounds := Some (computeBounds s),
         lastContainerSize_width := container_width s,
         lastContainerSize_height := container_height s \<rparr> = s"
    unfolding c [symmetric] w [symmetric] h [symmetric] by simp
  show ?thesis
    unfolding same by (simp add: refreshBounds_def fillCache_def Let_def c same)
qed

lemma computeBounds_update [simp]:
  "computeBounds (s\<lparr> viewport_x := a \<rparr>) = computeBounds s"
  "computeBounds (s\<lparr> viewport_y := a \<rparr>) = computeBounds s"
  "computeBounds (s\<lparr> input_mouseX := a \<rparr>) = computeBounds s"
  "computeBounds (s\<lparr> input_mouseY := a \<rparr>) = computeBounds s"
  "computeBounds (s\<lparr> input_isMouseActive := b \<rparr>) = computeBounds s"
  "computeBounds (s\<lparr> input_keyboardActive := b \<rparr>) = computeBounds s"
  "computeBounds (s\<lparr> input_touchActive := b \<rparr>) = computeBounds s"
  "computeBounds (s\<lparr> input_keysPressed := K \<rparr>) = computeBounds s"
  "computeBounds (s\<lparr> keyboard_isMoving := b \<rparr>) = computeBounds s"
  "computeBounds (s\<lparr> keyboard_animationId := i \<rparr>) = computeBounds s"
  "computeBounds (s\<lparr> raf_pending := p \<rparr>) = computeBounds s"
  "computeBounds (s\<lparr> raf_lastHandle := n \<rparr>) = computeBounds s"
  "computeBounds (s\<lparr> cachedBounds := c \<rparr>) = computeBounds s"
  "computeBounds (s\<lparr> lastContainerSize_width := a \<rparr>) = computeBounds s"
  "computeBounds (s\<lparr> lastContainerSize_height := a \<rparr>) = computeBounds s"
  "computeBounds (s\<lparr> selfTest_restore := q \<rparr>) = computeBounds s"
  by (simp_all add: computeBounds_def Let_def)

lemma coherent_update [simp]:
  "coherent (s\<lparr> viewport_x := a \<rparr>) = coherent s"
  "coherent (s\<lparr> viewport_y := a \<rparr>) = coherent s"
  "coherent (s\<lparr> input_mouseX := a \<rparr>) = coherent s"
  "coherent (s\<lparr> input_mouseY := a \<rparr>) = coherent s"
  "coherent (s\<lparr> input_isMouseActive := b \<rparr>) = coherent s"
  "coherent (s\<lparr> input_keyboardActive := b \<rparr>) = coherent s"
  "coherent (s\<lparr> input_touchActive := b \<rparr>) = coherent s"
  "coherent (s\<lparr> input_keysPressed := K \<rparr>) = coherent s"
  "coherent (s\<lparr> keyboard_isMoving := b \<rparr>) = coherent s"
  "coherent (s\<lparr> keyboard_animationId := i \<rparr>) = coherent s"
  "coherent (s\<lparr> raf_pending := p \<rparr>) = coherent s"
  "coherent (s\<lparr> raf_lastHandle := n \<rparr>) = coherent s"
  "coherent (s\<lparr> selfTest_restore := q \<rparr>) = coherent s"
  by (simp_all add: coherent_def split: option.splits)

lemma coherent_filled [simp]:
  "coherent (s\<lparr> cachedBounds := Some (computeBounds s),
               lastContainerSize_width := container_width s,
               lastContainerSize_height := container_height s \<rparr>)"
  by (simp add: coherent_def)

text \<open>
  With a coherent cache the cached clamp and the recomputed clamp agree: on such states
  the cache is the memoisation the spec describes.
\<close>

lemma abc_coherent:
  "coherent s \<Longrightarrow>
   applyBoundaryConstraints x y s =
     (recomputedConstraints x y s,
      s\<lparr> cachedBounds := Some (computeBounds s),
         lastContainerSize_width := container_width s,
         lastContainerSize_height := container_height s \<rparr>)"
  by (simp add: abc_unfold coherent_refresh recomputedConstraints_def Let_def)

lemma coherent_filled_iff [simp]:
  "coherent (s\<lparr> cachedBounds := Some b, lastContainerSize_width := ww,
               lastContainerSize_height := hh \<rparr>) =
     (b = computeBounds s \<and> ww = container_width s \<and> hh = container_height s)"
  by (simp add: coherent_def)

lemma pendingFinite_update [simp]:
  "pendingFinite (s\<lparr> viewport_x := a \<rparr>) = pendingFinite s"
  "pendingFinite (s\<lparr> viewport_y := a \<rparr>) = pendingFinite s"
  "pendingFinite (s\<lparr> input_mouseX := a \<rparr>) = pendingFinite s"
  "pendingFinite (s\<lparr> input_mouseY := a \<rparr>) = pendingFinite s"
  "pendingFinite (s\<lparr> input_isMouseActive := b \<rparr>) = pendingFinite s"
  "pendingFinite (s\<lparr> input_keyboardActive := b \<rparr>) = pendingFinite s"
  "pendingFinite (s\<lparr> input_touchActive := b \<rparr>) = pendingFinite s"
  "pendingFinite (s\<lparr> input_keysPressed := K \<rparr>) = pendingFinite s"
  "pendingFinite (s\<lparr> keyboard_isMoving := b \<rparr>) = pendingFinite s"
  "pendingFinite (s\<lparr> keyboard_animationId := i \<rparr>) = pendingFinite s"
  "pendingFinite (s\<lparr> raf_lastHandle := n \<rparr>) = pendingFinite s"
  "pendingFinite (s\<lparr> cachedBounds := c \<rparr>) = pendingFinite s"
  "pendingFinite (s\<lparr> lastContainerSize_width := a \<rparr>) = pendingFinite s"
  "pendingFinite (s\<lparr> lastContainerSize_height := a \<rparr>) = pendingFinite s"
  "pendingFinite (s\<lparr> selfTest_restore := q \<rparr>) = pendingFinite s"
  by (simp_all add: pendingFinite_def)

lemma clamp_in_range:
  fixes lo hi a :: real
  shows "lo \<le> hi \<Longrightarrow> lo \<le> max lo (min hi a) \<and> max lo (min hi a) \<le> hi"
  by auto

lemma smooth_in_range:
  fixes lo hi x c k :: real
  assumes "lo \<le> x" "x \<le> hi" "lo \<le> c" "c \<le> hi" "0 \<le> k" "k \<le> 1"
  shows "lo \<le> x + (c - x) * k \<and> x + (c - x) * k \<le> hi"
proof -
  have e: "x + (c - x) * k = (1 - k) * x + k * c" by (simp add: algebra_simps)
  have "(1 - k) * lo + k * lo \<le> (1 - k) * x + k * c"
    using assms by (intro add_mono mult_left_mono) auto
  moreover have "(1 - k) * x + k * c \<le> (1 - k) * hi + k * hi"
    using assms by (intro add_mono mult_left_mono) auto
  ultimately show ?thesis unfolding e by (simp add: algebra_simps)
qed

lemma computeBounds_rect:
  assumes "container_width s = Fin w" "container_height s = Fin h" "viewport_radius s = Fin r"
      and "w \<noteq> 0" "h \<noteq> 0"
  shows "computeBounds s =
     \<lparr> minX = Fin (rectMin w w r), maxX = Fin (rectMax w w r),
       minY = Fin (rectMin w h r), maxY = Fin (rectMax w h r) \<rparr>"
  using assms
  by (simp add: computeBounds_def boundaryPadding_def Let_def rectMin_def rectMax_def padding_def)

lemma fillCache_keeps [simp]:
  "viewport_x (snd (fillCache s)) = viewport_x s"
  "viewport_y (snd (fillCache s)) = viewport_y s"
  "viewport_radius (snd (fillCache s)) = viewport_radius s"
  "container_width (snd (fillCache s)) = container_width s"
  "container_height (snd (fillCache s)) = container_height s"
  "isLoaded (snd (fillCache s)) = isLoaded s"
  "input_touchActive (snd (fillCache s)) = input_touchActive s"
  "input_keysPressed (snd (fillCache s)) = input_keysPressed s"
  "keyboard_isMoving (snd (fillCache s)) = keyboard_isMoving s"
  "keyboard_animationId (snd (fillCache s)) = keyboard_animationId s"
  "raf_pending (snd (fillCache s)) = raf_pending s"
  "raf_lastHandle (snd (fillCache s)) = raf_lastHandle s"
  "computeBounds (snd (fillCache s)) = computeBounds s"
  "coherent (snd (fillCache s))"
  "pendingFinite (snd (fillCache s)) = pendingFinite s"
  "selfTest_restore (snd (fillCache s)) = selfTest_restore s"
  "restoreOk (snd (fillCache s)) = restoreOk s"
  by (simp_all add: fillCache_def Let_def restoreOk_def)

lemma coherent_refreshBounds:
  "coherent s \<Longrightarrow> refreshBounds s = (computeBounds s, snd (fillCache s))"
  by (simp add: coherent_refresh fillCache_def Let_def)

text \<open>The invariant in terms of real numbers.\<close>

lemma steady_iff:
  assumes "w \<noteq> 0" "h \<noteq> 0"
  shows "steady ins w h r s \<longleftrightarrow>
     isLoaded s \<and> container_width s = Fin w \<and> container_height s = Fin h \<and>
     viewport_radius s = Fin r \<and> coherent s \<and> pendingFinite s \<and> restoreOk s \<and>
     (\<exists>x y. viewport_x s = Fin x \<and> viewport_y s = Fin y \<and>
        (ins \<or> selfTest_restore s = None \<longrightarrow>
         rectMin w w r \<le> x \<and> x \<le> rectMax w w r \<and>
         rectMin w h r \<le> y \<and> y \<le> rectMax w h r))"
  using assms
  by (auto simp: steady_def inRectangle_def computeBounds_rect is_finite_iff)

lemma abc_steady:
  assumes "steady ins w h r s" "w \<noteq> 0" "h \<noteq> 0"
  shows "applyBoundaryConstraints (Fin a) (Fin b) s =
     ((Fin (max (rectMin w w r) (min (rectMax w w r) a)),
       Fin (max (rectMin w h r) (min (rectMax w h r) b))), snd (fillCache s))"
proof -
  from assms have c: "coherent s" and d: "container_width s = Fin w"
    "container_height s = Fin h" "viewport_radius s = Fin r"
    by (simp_all add: steady_def)
  show ?thesis
    by (simp add: abc_unfold coherent_refreshBounds [OF c] computeBounds_rect [OF d assms(2,3)])
qed

lemma steady_fillCache:
  assumes "steady ins w h r s" "w \<noteq> 0" "h \<noteq> 0"
  shows "steady ins w h r (snd (fillCache s))"
  using assms(1) unfolding steady_iff [OF assms(2,3)] by simp

lemma steady_position:
  assumes "steady ins w h r s" "w \<noteq> 0" "h \<noteq> 0"
      and "ins \<or> selfTest_restore s = None \<Longrightarrow>
           rectMin w w r \<le> x \<and> x \<le> rectMax w w r \<and> rectMin w h r \<le> y \<and> y \<le> rectMax w h r"
  shows "steady ins w h r (s\<lparr> viewport_x := Fin x, viewport_y := Fin y \<rparr>)"
  using assms(1,4) unfolding steady_iff [OF assms(2,3)] by (auto simp: restoreOk_def)

lemma steady_input [simp]:
  "steady ins w h r (s\<lparr> input_mouseX := a \<rparr>) = steady ins w h r s"
  "steady ins w h r (s\<lparr> input_mouseY := a \<rparr>) = steady ins w h r s"
  "steady ins w h r (s\<lparr> input_isMouseActive := b \<rparr>) = steady ins w h r s"
  "steady ins w h r (s\<lparr> input_keyboardActive := b \<rparr>) = steady ins w h r s"
  "steady ins w h r (s\<lparr> input_touchActive := b \<rparr>) = steady ins w h r s"
  "steady ins w h r (s\<lparr> input_keysPressed := K \<rparr>) = steady ins w h r s"
  "steady ins w h r (s\<lparr> keyboard_isMoving := b \<rparr>) = steady ins w h r s"
  "steady ins w h r (s\<lparr> keyboard_animationId := i \<rparr>) = steady ins w h r s"
  "steady ins w h r (s\<lparr> raf_lastHandle := n \<rparr>) = steady ins w h r s"
  by (simp_all add: steady_def inRectangle_def restoreOk_def)

lemma steady_pending:
  "steady ins w h r s \<Longrightarrow> steady ins w h r (s\<lparr> raf_pending := None \<rparr>)"
  "steady ins w h r s \<Longrightarrow> steady ins w h r (s\<lparr> raf_pending := Some (k, Fin t) \<rparr>)"
  by (simp_all add: steady_def inRectangle_def pendingFinite_def restoreOk_def)

lemma updateViewportPosition_steady:
  assumes st: "steady ins w h r s" and nz: "w \<noteq> 0" "h \<noteq> 0"
      and nd: "rectMin w w r \<le> rectMax w w r" "rectMin w h r \<le> rectMax w h r"
  shows "steady ins w h r (updateViewportPosition (Fin a) (Fin b) smooth s)"
proof -
  from st nz obtain x y where
    xy: "viewport_x s = Fin x" "viewport_y s = Fin y"
    and r: "ins \<or> selfTest_restore s = None \<Longrightarrow>
        rectMin w w r \<le> x \<and> x \<le> rectMax w w r \<and> rectMin w h r \<le> y \<and> y \<le> rectMax w h r"
    by (auto simp: steady_iff)
  let ?cx = "max (rectMin w w r) (min (rectMax w w r) a)"
  let ?cy = "max (rectMin w h r) (min (rectMax w h r) b)"
  let ?k = "if input_touchActive s then 0.4 else (0.15::real)"
  have k: "0 \<le> ?k" "?k \<le> 1" by simp_all
  note cx = clamp_in_range [OF nd(1), of a]
  note cy = clamp_in_range [OF nd(2), of b]
  have sx: "rectMin w w r \<le> x + (?cx - x) * ?k \<and> x + (?cx - x) * ?k \<le> rectMax w w r"
    if "ins \<or> selfTest_restore s = None"
    using r [OF that] cx k by (intro smooth_in_range) auto
  have sy: "rectMin w h r \<le> y + (?cy - y) * ?k \<and> y + (?cy - y) * ?k \<le> rectMax w h r"
    if "ins \<or> selfTest_restore s = None"
    using r [OF that] cy k by (intro smooth_in_range) auto
  let ?nx = "if smooth then x + (?cx - x) * ?k else ?cx"
  let ?ny = "if smooth then y + (?cy - y) * ?k else ?cy"
  have inside: "rectMin w w r \<le> ?nx \<and> ?nx \<le> rectMax w w r \<and>
                rectMin w h r \<le> ?ny \<and> ?ny \<le> rectMax w h r"
    if "ins \<or> selfTest_restore s = None"
    using sx [OF that] sy [OF that] cx cy by auto
  have e: "updateViewportPosition (Fin a) (Fin b) smooth s =
     (snd (fillCache s))\<lparr> viewport_x := Fin (if smooth then x + (?cx - x) * ?k else ?cx),
                           viewport_y := Fin (if smooth then y + (?cy - y) * ?k else ?cy) \<rparr>"
    by (simp add: updateViewportPosition_def abc_steady [OF st nz] xy Let_def
        smoothingFactor_def touchSmoothingFactor_def)
  show ?thesis
    unfolding e
    using inside
    by (intro steady_position [OF steady_fillCache [OF st nz] nz]) simp
qed

lemma mouseToViewportPosition_steady:
  assumes "steady ins w h r s" "w \<noteq> 0" "h \<noteq> 0"
  shows "\<exists>a b. mouseToViewportPosition (Fin cx) (Fin cy) s = ((Fin a, Fin b), snd (fillCache s))"
proof -
  from assms have d: "container_width s = Fin w" "container_height s = Fin h"
    by (simp_all add: steady_def)
  show ?thesis
    by (simp add: mouseToViewportPosition_def d assms(2,3) abc_steady [OF assms] Let_def)
qed

lemma sample_steady:
  assumes st: "steady ins w h r s" and nz: "w \<noteq> 0" "h \<noteq> 0"
      and nd: "rectMin w w r \<le> rectMax w w r" "rectMin w h r \<le> rectMax w h r"
  shows "steady ins w h r
     (case mouseToViewportPosition (Fin cx) (Fin cy) s of
        (position, s2) \<Rightarrow> updateViewportPosition (fst position) (snd position) smooth s2)"
proof -
  obtain a b where m: "mouseToViewportPosition (Fin cx) (Fin cy) s = ((Fin a, Fin b), snd (fillCache s))"
    using mouseToViewportPosition_steady [OF st nz] by blast
  show ?thesis
    unfolding m
    by (simp add: updateViewportPosition_steady [OF steady_fillCache [OF st nz] nz nd])
qed

lemma handleMouseMove_steady:
  assumes st: "steady ins w h r s" and nz: "w \<noteq> 0" "h \<noteq> 0"
      and nd: "rectMin w w r \<le> rectMax w w r" "rectMin w h r \<le> rectMax w h r"
  shows "steady ins w h r (handleMouseMove (Fin cx) (Fin cy) s)"
proof -
  let ?s1 = "s\<lparr> input_mouseX := Fin cx, input_mouseY := Fin cy,
                input_isMouseActive := True, input_keyboardActive := False \<rparr>"
  have s1: "steady ins w h r ?s1" using st by simp
  show ?thesis
    unfolding handleMouseMove_def Let_def
    using st sample_steady [OF s1 nz nd, where smooth = True and cx = cx and cy = cy] by simp
qed

lemma handleTouchStart_steady:
  assumes st: "steady ins w h r s" and nz: "w \<noteq> 0" "h \<noteq> 0"
      and nd: "rectMin w w r \<le> rectMax w w r" "rectMin w h r \<le> rectMax w h r"
  shows "steady ins w h r (handleTouchStart (Some (Fin cx, Fin cy)) s)"
proof -
  let ?s1 = "s\<lparr> input_touchActive := True, input_isMouseActive := False,
                input_keyboardActive := False,
                input_mouseX := Fin cx, input_mouseY := Fin cy \<rparr>"
  have s1: "steady ins w h r ?s1" using st by simp
  show ?thesis
    unfolding handleTouchStart_def Let_def
    using st sample_steady [OF s1 nz nd, where smooth = False and cx = cx and cy = cy] by simp
qed

lemma handleTouchMove_steady:
  assumes st: "steady ins w h r s" and nz: "w \<noteq> 0" "h \<noteq> 0"
      and nd: "rectMin w w r \<le> rectMax w w r" "rectMin w h r \<le> rectMax w h r"
  shows "steady ins w h r (handleTouchMove (Some (Fin cx, Fin cy)) s)"
proof -
  let ?s1 = "s\<lparr> input_mouseX := Fin cx, input_mouseY := Fin cy \<rparr>"
  have s1: "steady ins w h r ?s1" using st by simp
  show ?thesis
    unfolding handleTouchMove_def Let_def
    using st sample_steady [OF s1 nz nd, where smooth = True and cx = cx and cy = cy] by simp
qed

lemma stopKeyboardMovement_steady:
  "steady ins w h r s \<Longrightarrow> steady ins w h r (stopKeyboardMovement s)"
  by (simp add: stopKeyboardMovement_def cancelAnimationFrame_def Let_def steady_pending
      split: option.splits)

lemma requestAnimationFrame_steady:
  "steady ins w h r s \<Longrightarrow>
   steady ins w h r ((snd (requestAnimationFrame (Fin t) s))\<lparr> keyboard_animationId := i \<rparr>)"
  by (simp add: requestAnimationFrame_def Let_def steady_pending)

lemma startKeyboardMovement_steady:
  "steady ins w h r s \<Longrightarrow> steady ins w h r (startKeyboardMovement (Fin now) s)"
proof -
  assume st: "steady ins w h r s"
  then have "steady ins w h r (s\<lparr> keyboard_isMoving := True \<rparr>)" by simp
  from requestAnimationFrame_steady [OF this] st show ?thesis
    by (simp add: startKeyboardMovement_def Let_def case_prod_beta)
qed

lemma moveViewportByDelta_steady:
  assumes st: "steady ins w h r s" and nz: "w \<noteq> 0" "h \<noteq> 0"
      and nd: "rectMin w w r \<le> rectMax w w r" "rectMin w h r \<le> rectMax w h r"
  shows "steady ins w h r (moveViewportByDelta (Fin dx) (Fin dy) s)"
proof -
  from st nz obtain x y where xy: "viewport_x s = Fin x" "viewport_y s = Fin y"
    by (auto simp: steady_iff)
  have e: "moveViewportByDelta (Fin dx) (Fin dy) s =
     (snd (fillCache s))\<lparr> viewport_x := Fin (max (rectMin w w r) (min (rectMax w w r) (x + dx))),
                           viewport_y := Fin (max (rectMin w h r) (min (rectMax w h r) (y + dy))) \<rparr>"
    by (simp add: moveViewportByDelta_def xy abc_steady [OF st nz] Let_def)
  show ?thesis
    unfolding e
    using clamp_in_range [OF nd(1), of "x + dx"] clamp_in_range [OF nd(2), of "y + dy"]
    by (intro steady_position [OF steady_fillCache [OF st nz] nz]) simp
qed

lemma moveLoop_steady:
  assumes st: "steady ins w h r s" and nz: "w \<noteq> 0" "h \<noteq> 0"
      and nd: "rectMin w w r \<le> rectMax w w r" "rectMin w h r \<le> rectMax w h r"
  shows "steady ins w h r (moveLoop (Fin tPrev) (Fin tNow) s)"
proof (cases "\<not> keyboard_isMoving s \<or> input_keysPressed s = {}")
  case True
  then show ?thesis
    using stopKeyboardMovement_steady [OF st] by (simp add: moveLoop_def)
next
  case False
  from st have cw: "container_width s = Fin w" by (simp add: steady_def)
  let ?m = "(if w < 480 then 0.003 else if w < 768 then 0.0025 else 0.002) * ((tNow - tPrev) / 16.67)"
  let ?d = "heldDirection (input_keysPressed s)"
  let ?s1 = "if fst ?d * ?m \<noteq> 0 \<or> snd ?d * ?m \<noteq> 0
             then moveViewportByDelta (Fin (fst ?d * ?m)) (Fin (snd ?d * ?m)) s else s"
  have s1: "steady ins w h r ?s1"
    using st moveViewportByDelta_steady [OF st nz nd] by simp
  have e: "moveLoop (Fin tPrev) (Fin tNow) s =
     (snd (requestAnimationFrame (Fin tNow) ?s1))
       \<lparr> keyboard_animationId := Some (fst (requestAnimationFrame (Fin tNow) ?s1)) \<rparr>"
    using False
    by (simp add: moveLoop_def getKeyboardMoveSpeed_Fin [OF cw] keyboardDeltas_Fin Let_def
        case_prod_beta)
  show ?thesis
    unfolding e by (rule requestAnimationFrame_steady [OF s1])
qed

lemma animationFrame_steady:
  assumes st: "steady ins w h r s" and nz: "w \<noteq> 0" "h \<noteq> 0"
      and nd: "rectMin w w r \<le> rectMax w w r" "rectMin w h r \<le> rectMax w h r"
  shows "steady ins w h r (animationFrame (Fin tNow) s)"
proof (cases "raf_pending s")
  case None
  then show ?thesis using st by (simp add: animationFrame_def)
next
  case (Some p)
  obtain k t where p: "p = (k, t)" by (cases p)
  from st Some p obtain tPrev where t: "t = Fin tPrev"
    by (auto simp: steady_def pendingFinite_def is_finite_iff)
  show ?thesis
    using moveLoop_steady [OF steady_pending(1) [OF st] nz nd, of tPrev tNow]
    by (simp add: animationFrame_def Some p t)
qed

text \<open>
  The self-test timer puts the saved centre back, which lies inside every rectangle that
  is not empty.
\<close>

lemma selfTestTimeout_steady:
  assumes st: "steady ins w h r s" and nz: "w \<noteq> 0" "h \<noteq> 0"
      and nd: "rectMin w w r \<le> rectMax w w r" "rectMin w h r \<le> rectMax w h r"
  shows "steady ins w h r (selfTestTimeout s)"
proof (cases "selfTest_restore s")
  case None
  with st show ?thesis by (simp add: selfTestTimeout_def)
next
  case (Some p)
  with st have p: "p = (Fin 0.5, Fin 0.5)" by (simp add: steady_def restoreOk_def)
  from nd have mid: "rectMin w w r \<le> 0.5 \<and> 0.5 \<le> rectMax w w r \<and>
                     rectMin w h r \<le> 0.5 \<and> 0.5 \<le> rectMax w h r"
    unfolding rectMin_def rectMax_def by linarith
  from st have d: "container_width s = Fin w" "container_height s = Fin h"
    "viewport_radius s = Fin r"
    by (simp_all add: steady_def)
  note cb = computeBounds_rect [OF d nz]
  have "steady ins w h r
      (s\<lparr> viewport_x := Fin 0.5, viewport_y := Fin 0.5, selfTest_restore := None \<rparr>)"
    using st mid by (simp add: steady_def restoreOk_def inRectangle_def cb)
  then show ?thesis by (simp add: selfTestTimeout_def Some p)
qed

lemma step_steady:
  assumes st: "steady ins w h r s" and nz: "w \<noteq> 0" "h \<noteq> 0"
      and nd: "rectMin w w r \<le> rectMax w w r" "rectMin w h r \<le> rectMax w h r"
      and ev: "inputEvent e"
  shows "steady ins w h r (step e s)"
proof (cases e)
  case (MouseMove cx cy)
  with ev handleMouseMove_steady [OF st nz nd] show ?thesis
    by (auto simp: is_finite_iff)
next
  case (TouchStart t)
  with ev handleTouchStart_steady [OF st nz nd] st show ?thesis
    by (cases t) (auto simp: is_finite_iff handleTouchStart_def)
next
  case (TouchMove t)
  with ev handleTouchMove_steady [OF st nz nd] st show ?thesis
    by (cases t) (auto simp: is_finite_iff handleTouchMove_def)
next
  case (TouchEnd b)
  with st show ?thesis by (simp add: handleTouchEnd_def)
next
  case (KeyDown key now)
  with ev obtain t where "now = Fin t" by (auto simp: is_finite_iff)
  with KeyDown st show ?thesis
    by (simp add: handleKeyDown_def Let_def startKeyboardMovement_steady)
next
  case (KeyUp key)
  with st show ?thesis
    by (simp add: handleKeyUp_def Let_def stopKeyboardMovement_steady)
next
  case (AnimationFrame t)
  with ev animationFrame_steady [OF st nz nd] show ?thesis
    by (auto simp: is_finite_iff)
next
  case MouseEnter
  with st show ?thesis by simp
next
  case MouseLeave
  with st show ?thesis by simp
next
  case Blur
  with st show ?thesis by (simp add: handleBlur_def stopKeyboardMovement_steady)
next
  case (VisibilityChange hidden)
  with st show ?thesis by (simp add: handleVisibilityChange_def stopKeyboardMovement_steady)
next
  case (Resize a b)
  with ev show ?thesis by simp
next
  case (OrientationChange a b)
  with ev show ?thesis by simp
next
  case SelfTestTimeout
  with selfTestTimeout_steady [OF st nz nd] show ?thesis by simp
qed

lemma run_steady:
  assumes nz: "w \<noteq> 0" "h \<noteq> 0"
      and nd: "rectMin w w r \<le> rectMax w w r" "rectMin w h r \<le> rectMax w h r"
  shows "list_all inputEvent es \<Longrightarrow> steady ins w h r s \<Longrightarrow> steady ins w h r (run es s)"
proof (induction es arbitrary: s)
  case Nil
  then show ?case by simp
next
  case (Cons e es)
  from Cons.prems have "inputEvent e" "list_all inputEvent es" by simp_all
  with Cons.IH step_steady [OF Cons.prems(2) nz nd] show ?case by simp
qed

lemma init_radius:
  "\<exists>r. viewport_radius (init (Fin w) (Fin h)) = Fin r \<and> 60 \<le> r \<and> r \<le> 200"
  by (auto simp: init_defs jgt_def)

lemma init_fields:
  "isLoaded (init a b)" "container_width (init a b) = a" "container_height (init a b) = b"
  "cachedBounds (init a b) = None" "raf_pending (init a b) = None"
  "viewport_x (init a b) = Fin 0.51" "viewport_y (init a b) = Fin 0.51"
  "input_touchActive (init a b) = False"
  "selfTest_restore (init a b) = Some (Fin 0.5, Fin 0.5)"
  by (simp_all add: init_defs)

lemma init_steady:
  assumes "jle (minX (computeBounds (init (Fin w) (Fin h)))) (maxX (computeBounds (init (Fin w) (Fin h))))"
      and "jle (minY (computeBounds (init (Fin w) (Fin h)))) (maxY (computeBounds (init (Fin w) (Fin h))))"
  shows "\<exists>r. steady False w h r (init (Fin w) (Fin h)) \<and> w \<noteq> 0 \<and> h \<noteq> 0 \<and>
             rectMin w w r \<le> rectMax w w r \<and> rectMin w h r \<le> rectMax w h r"
proof -
  let ?s = "init (Fin w) (Fin h)"
  obtain r where r: "viewport_radius ?s = Fin r" "60 \<le> r" using init_radius by blast
  have w: "w \<noteq> 0"
  proof
    assume "w = 0"
    with r assms(1) show False
      by (simp add: computeBounds_def init_fields Let_def jsub_def boundaryPadding_def
          split: if_splits)
  qed
  have h: "h \<noteq> 0"
  proof
    assume "h = 0"
    with r assms(2) show False
      by (simp add: computeBounds_def init_fields Let_def jsub_def boundaryPadding_def
          split: if_splits)
  qed
  note cb = computeBounds_rect [OF init_fields(2,3) r(1) w h]
  from assms have nd: "rectMin w w r \<le> rectMax w w r" "rectMin w h r \<le> rectMax w h r"
    unfolding cb by simp_all
  have "steady False w h r ?s"
    using r(1) by (simp add: steady_def init_fields coherent_def pendingFinite_def restoreOk_def)
  with w h nd show ?thesis by blast
qed

lemma steady_flag:
  "steady False w h r s \<Longrightarrow> inRectangle (computeBounds s) s \<Longrightarrow> steady True w h r s"
  by (simp add: steady_def)

lemma steady_inRectangle:
  "steady ins w h r s \<Longrightarrow> ins \<or> selfTest_restore s = None \<Longrightarrow> inRectangle (computeBounds s) s"
  by (simp add: steady_def)

text \<open>Once the self-test timer has fired, nothing is left to restore.\<close>

lemma selfTest_restore_keeps [simp]:
  "selfTest_restore (snd (mouseToViewportPosition cx cy s)) = selfTest_restore s"
  "selfTest_restore (updateViewportPosition a b smooth s) = selfTest_restore s"
  "selfTest_restore (moveViewportByDelta dx dy s) = selfTest_restore s"
  "selfTest_restore (stopKeyboardMovement s) = selfTest_restore s"
  "selfTest_restore (startKeyboardMovement now s) = selfTest_restore s"
  "selfTest_restore (handleResize a b s) = selfTest_restore s"
  "selfTest_restore (handleOrientationChange a b s) = selfTest_restore s"
  by (simp_all add: mouseToViewportPosition_def updateViewportPosition_def
      moveViewportByDelta_def abc_unfold stopKeyboardMovement_def cancelAnimationFrame_def
      startKeyboardMovement_def requestAnimationFrame_def handleResize_def
      handleOrientationChange_def calculateViewportRadius_def updateResponsiveState_def
      updateContainerDimensions_def Let_def case_prod_beta split: option.splits)

lemma selfTest_restore_moveLoop [simp]:
  "selfTest_restore (moveLoop tPrev tNow s) = selfTest_restore s"
  by (simp add: moveLoop_def requestAnimationFrame_def Let_def case_prod_beta)

lemma selfTest_restore_step:
  "selfTest_restore (step e s) = (if e = SelfTestTimeout then None else selfTest_restore s)"
proof (cases e)
  case (TouchStart t)
  then show ?thesis by (cases t) (auto simp: handleTouchStart_def Let_def case_prod_beta)
next
  case (TouchMove t)
  then show ?thesis by (cases t) (auto simp: handleTouchMove_def Let_def case_prod_beta)
next
  case SelfTestTimeout
  then show ?thesis by (simp add: selfTestTimeout_def split: option.splits)
qed (simp_all add: handleMouseMove_def handleTouchEnd_def handleKeyDown_def handleKeyUp_def
       animationFrame_def handleBlur_def handleVisibilityChange_def Let_def case_prod_beta
       split: option.splits)

lemma selfTest_restore_run:
  "SelfTestTimeout \<in> set es \<or> selfTest_restore s = None \<Longrightarrow> selfTest_restore (run es s) = None"
proof (induction es arbitrary: s)
  case Nil
  then show ?case by simp
next
  case (Cons e es)
  have "SelfTestTimeout \<in> set es \<or> selfTest_restore (step e s) = None"
    using Cons.prems by (auto simp: selfTest_restore_step)
  from Cons.IH [OF this] show ?case by simp
qed

text \<open>
  C1, as far as the code keeps it. Start the viewer in a finite container whose computed
  rectangle is not empty on either axis, and process any sequence of pointer, touch,
  keyboard, frame, focus and timer events with finite coordinates and times, without a
  resize or an orientation change. If the self-test timer has fired in the sequence, or
  the position (0.51, 0.51) that the self-test stores while loading lies inside the
  rectangle, then the viewport position lies inside the rectangle computed from the
  current container size and radius, which is still the rectangle of the start. Since
  every extension of such a sequence by input events is such a sequence, this holds
  after every later event.
\<close>

theorem containment_without_resize:
  assumes "jle (minX (computeBounds (init (Fin w) (Fin h))))
               (maxX (computeBounds (init (Fin w) (Fin h))))"
      and "jle (minY (computeBounds (init (Fin w) (Fin h))))
               (maxY (computeBounds (init (Fin w) (Fin h))))"
      and "list_all inputEvent es"
      and "SelfTestTimeout \<in> set es \<or>
           inRectangle (computeBounds (init (Fin w) (Fin h))) (init (Fin w) (Fin h))"
  shows "inRectangle (computeBounds (run es (init (Fin w) (Fin h))))
           (run es (init (Fin w) (Fin h))) \<and>
         computeBounds (run es (init (Fin w) (Fin h))) = computeBounds (init (Fin w) (Fin h))"
proof -
  let ?s = "init (Fin w) (Fin h)"
  obtain r where st: "steady False w h r ?s" and nz: "w \<noteq> 0" "h \<noteq> 0"
    and nd: "rectMin w w r \<le> rectMax w w r" "rectMin w h r \<le> rectMax w h r"
    using init_steady [OF assms(1,2)] by blast
  have fin: "steady False w h r (run es ?s)"
    by (rule run_steady [OF nz nd assms(3) st])
  have same: "computeBounds (run es ?s) = computeBounds ?s"
    using fin st by (simp add: steady_def computeBounds_def)
  from assms(4) have "inRectangle (computeBounds (run es ?s)) (run es ?s)"
  proof
    assume "SelfTestTimeout \<in> set es"
    then have "selfTest_restore (run es ?s) = None" by (simp add: selfTest_restore_run)
    with steady_inRectangle [OF fin] show ?thesis by simp
  next
    assume "inRectangle (computeBounds ?s) ?s"
    from run_steady [OF nz nd assms(3) steady_flag [OF st this]] show ?thesis
      by (rule steady_inRectangle) simp
  qed
  with same show ?thesis by simp
qed

text \<open>
  Witness for C1: the 1000 x 800 container, whose rectangle contains (0.51, 0.51), with
  a mouse move, a key press, a frame and a touch start; and the 124 x 124 container,
  whose rectangle does not, with a mouse move after the self-test timer.
\<close>

theorem containment_without_resize_witness:
  "inRectangle
     (computeBounds (run [MouseMove (Fin 50) (Fin 50), KeyDown ''arrowleft'' (Fin 0),
        AnimationFrame (Fin 16.67), TouchStart (Some (Fin 0, Fin 0))] (init (Fin 1000) (Fin 800))))
     (run [MouseMove (Fin 50) (Fin 50), KeyDown ''arrowleft'' (Fin 0),
        AnimationFrame (Fin 16.67), TouchStart (Some (Fin 0, Fin 0))] (init (Fin 1000) (Fin 800))) \<and>
   inRectangle
     (computeBounds (run [SelfTestTimeout, MouseMove (Fin 62) (Fin 62)] (init (Fin 124) (Fin 124))))
     (run [SelfTestTimeout, MouseMove (Fin 62) (Fin 62)] (init (Fin 124) (Fin 124)))"
proof -
  have b: "computeBounds (init (Fin 1000) (Fin 800)) =
     \<lparr> minX = Fin 0.1, maxX = Fin 0.9, minY = Fin 0.12, maxY = Fin 0.88 \<rparr>"
    by (simp add: computeBounds_def boundaryPadding_def init_defs)
  have h1: "jle (minX (computeBounds (init (Fin 1000) (Fin 800))))
               (maxX (computeBounds (init (Fin 1000) (Fin 800))))"
    unfolding b by simp
  have h2: "jle (minY (computeBounds (init (Fin 1000) (Fin 800))))
               (maxY (computeBounds (init (Fin 1000) (Fin 800))))"
    unfolding b by simp
  have h3: "list_all inputEvent [MouseMove (Fin 50) (Fin 50), KeyDown ''arrowleft'' (Fin 0),
        AnimationFrame (Fin 16.67), TouchStart (Some (Fin 0, Fin 0))]"
    by simp
  have h4: "SelfTestTimeout \<in> set [MouseMove (Fin 50) (Fin 50), KeyDown ''arrowleft'' (Fin 0),
        AnimationFrame (Fin 16.67), TouchStart (Some (Fin 0, Fin 0))] \<or>
      inRectangle (computeBounds (init (Fin 1000) (Fin 800))) (init (Fin 1000) (Fin 800))"
    unfolding b by (simp add: inRectangle_def init_fields)
  have c: "computeBounds (init (Fin 124) (Fin 124)) =
     \<lparr> minX = Fin (60 / 124 + 0.01), maxX = Fin (1 - 60 / 124 - 0.01),
       minY = Fin (60 / 124 + 0.01), maxY = Fin (1 - 60 / 124 - 0.01) \<rparr>"
    by (simp add: computeBounds_def boundaryPadding_def init_defs)
  have k1: "jle (minX (computeBounds (init (Fin 124) (Fin 124))))
               (maxX (computeBounds (init (Fin 124) (Fin 124))))"
    unfolding c by simp
  have k2: "jle (minY (computeBounds (init (Fin 124) (Fin 124))))
               (maxY (computeBounds (init (Fin 124) (Fin 124))))"
    unfolding c by simp
  have k3: "list_all inputEvent [SelfTestTimeout, MouseMove (Fin 62) (Fin 62)]"
    by simp
  have k4: "SelfTestTimeout \<in> set [SelfTestTimeout, MouseMove (Fin 62) (Fin 62)] \<or>
      inRectangle (computeBounds (init (Fin 124) (Fin 124))) (init (Fin 124) (Fin 124))"
    by simp
  from containment_without_resize [OF h1 h2 h3 h4] containment_without_resize [OF k1 k2 k3 k4]
  show ?thesis by blast
qed

text \<open>
  Counterexample to C1 as stated. In the 1000 x 800 container a touch start at (0, 0)
  puts the viewport at \<open>x = 0.1\<close>; the resize to 500 x 800 raises \<open>minX\<close> to 0.19 and
  leaves the position where it was, outside the new rectangle; the next mouse-move
  sample moves it to 0.136, still outside. In a 100 x 100 container, whose rectangle is
  empty, one touch start already leaves the position outside of it. And in a 124 x 124
  container, whose rectangle is not empty and ends at \<open>maxX = 1 - 60 / 124 - 0.01\<close>, the
  viewer is loaded at (0.51, 0.51), outside, and a mouse move to the centre (62, 62)
  before the self-test timer fires leaves it at 0.5085, outside, with no resize.
\<close>

theorem resize_leaves_viewport_outside:
  "\<not> inRectangle
       (computeBounds (run [SelfTestTimeout, TouchStart (Some (Fin 0, Fin 0)), Resize (Fin 500) (Fin 800)]
          (init (Fin 1000) (Fin 800))))
       (run [SelfTestTimeout, TouchStart (Some (Fin 0, Fin 0)), Resize (Fin 500) (Fin 800)]
          (init (Fin 1000) (Fin 800))) \<and>
   viewport_x (run [SelfTestTimeout, TouchStart (Some (Fin 0, Fin 0)), Resize (Fin 500) (Fin 800)]
          (init (Fin 1000) (Fin 800))) = Fin 0.1 \<and>
   minX (computeBounds (run [SelfTestTimeout, TouchStart (Some (Fin 0, Fin 0)), Resize (Fin 500) (Fin 800)]
          (init (Fin 1000) (Fin 800)))) = Fin 0.19 \<and>
   \<not> inRectangle
       (computeBounds (run [SelfTestTimeout, TouchStart (Some (Fin 0, Fin 0)), Resize (Fin 500) (Fin 800),
          MouseMove (Fin 0) (Fin 0)] (init (Fin 1000) (Fin 800))))
       (run [SelfTestTimeout, TouchStart (Some (Fin 0, Fin 0)), Resize (Fin 500) (Fin 800),
          MouseMove (Fin 0) (Fin 0)] (init (Fin 1000) (Fin 800))) \<and>
   viewport_x (run [SelfTestTimeout, TouchStart (Some (Fin 0, Fin 0)), Resize (Fin 500) (Fin 800),
          MouseMove (Fin 0) (Fin 0)] (init (Fin 1000) (Fin 800))) = Fin 0.136 \<and>
   \<not> inRectangle
       (computeBounds (run [SelfTestTimeout, TouchStart (Some (Fin 50, Fin 50))] (init (Fin 100) (Fin 100))))
       (run [SelfTestTimeout, TouchStart (Some (Fin 50, Fin 50))] (init (Fin 100) (Fin 100))) \<and>
   jle (minX (computeBounds (init (Fin 124) (Fin 124)))) (maxX (computeBounds (init (Fin 124) (Fin 124)))) \<and>
   jle (minY (computeBounds (init (Fin 124) (Fin 124)))) (maxY (computeBounds (init (Fin 124) (Fin 124)))) \<and>
   \<not> inRectangle (computeBounds (init (Fin 124) (Fin 124))) (init (Fin 124) (Fin 124)) \<and>
   \<not> inRectangle
       (computeBounds (run [MouseMove (Fin 62) (Fin 62)] (init (Fin 124) (Fin 124))))
       (run [MouseMove (Fin 62) (Fin 62)] (init (Fin 124) (Fin 124))) \<and>
   viewport_x (run [MouseMove (Fin 62) (Fin 62)] (init (Fin 124) (Fin 124))) = Fin 0.5085 \<and>
   maxX (computeBounds (run [MouseMove (Fin 62) (Fin 62)] (init (Fin 124) (Fin 124)))) =
     Fin (1 - 60 / 124 - 0.01)"
  by (simp add: handler_defs init_defs inRectangle_def)

section \<open>Smoothing convergence\<close>

lemma real_clamp_idem:
  fixes lo hi a :: real
  shows "max lo (min hi (max lo (min hi a))) = max lo (min hi a)"
  by (simp add: max_def min_def)

lemma handleMouseMove_step:
  assumes st: "steady ins w h r s" and nz: "w \<noteq> 0" "h \<noteq> 0"
      and xy: "viewport_x s = Fin x" "viewport_y s = Fin y"
      and nt: "\<not> input_touchActive s"
  shows "viewport_x (handleMouseMove (Fin cx) (Fin cy) s) =
           Fin (x + (max (rectMin w w r) (min (rectMax w w r) (cx / w)) - x) * 0.15) \<and>
         viewport_y (handleMouseMove (Fin cx) (Fin cy) s) =
           Fin (y + (max (rectMin w h r) (min (rectMax w h r) (cy / h)) - y) * 0.15) \<and>
         \<not> input_touchActive (handleMouseMove (Fin cx) (Fin cy) s)"
proof -
  let ?s1 = "s\<lparr> input_mouseX := Fin cx, input_mouseY := Fin cy,
                input_isMouseActive := True, input_keyboardActive := False \<rparr>"
  from st have l: "isLoaded s" and d: "container_width s = Fin w" "container_height s = Fin h"
    by (simp_all add: steady_def)
  have s1: "steady ins w h r ?s1" using st by simp
  have s2: "steady ins w h r (snd (fillCache ?s1))" by (rule steady_fillCache [OF s1 nz])
  show ?thesis
    by (simp add: handleMouseMove_def mouseToViewportPosition_def l d nz abc_steady [OF s1 nz]
        updateViewportPosition_def abc_steady [OF s2 nz] xy nt smoothingFactor_def Let_def
        real_clamp_idem)
qed

lemma smoothing_recurrence:
  fixes t x p :: real
  shows "(t - (t - x) * p) + (t - (t - (t - x) * p)) * 0.15 = t - (t - x) * (0.85 * p)"
  by (simp add: field_simps)

lemma mouse_iteration:
  assumes st: "steady ins w h r s" and nz: "w \<noteq> 0" "h \<noteq> 0"
      and nd: "rectMin w w r \<le> rectMax w w r" "rectMin w h r \<le> rectMax w h r"
      and xy: "viewport_x s = Fin x0" "viewport_y s = Fin y0"
      and nt: "\<not> input_touchActive s"
      and tx: "tx = max (rectMin w w r) (min (rectMax w w r) (cx / w))"
      and ty: "ty = max (rectMin w h r) (min (rectMax w h r) (cy / h))"
  shows "steady ins w h r ((handleMouseMove (Fin cx) (Fin cy) ^^ n) s) \<and>
         \<not> input_touchActive ((handleMouseMove (Fin cx) (Fin cy) ^^ n) s) \<and>
         viewport_x ((handleMouseMove (Fin cx) (Fin cy) ^^ n) s) = Fin (tx - (tx - x0) * 0.85 ^ n) \<and>
         viewport_y ((handleMouseMove (Fin cx) (Fin cy) ^^ n) s) = Fin (ty - (ty - y0) * 0.85 ^ n)"
proof (induction n)
  case 0
  with st xy nt show ?case by simp
next
  case (Suc n)
  let ?s = "(handleMouseMove (Fin cx) (Fin cy) ^^ n) s"
  from Suc.IH have a: "steady ins w h r ?s" "\<not> input_touchActive ?s"
    "viewport_x ?s = Fin (tx - (tx - x0) * 0.85 ^ n)"
    "viewport_y ?s = Fin (ty - (ty - y0) * 0.85 ^ n)" by simp_all
  from handleMouseMove_step [OF a(1) nz a(3,4) a(2), of cx cy]
       handleMouseMove_steady [OF a(1) nz nd, of cx cy]
  show ?case
    by (simp add: tx [symmetric] ty [symmetric] smoothing_recurrence)
qed

lemma geometric_error_vanishes:
  fixes t x0 :: real
  shows "(\<lambda>n. t - (t - x0) * 0.85 ^ n) \<longlonglongrightarrow> t"
proof -
  have "(\<lambda>n. (0.85::real) ^ n) \<longlonglongrightarrow> 0"
    using LIMSEQ_realpow_zero [of "0.85::real"] by simp
  then have "(\<lambda>n. (t - x0) * 0.85 ^ n) \<longlonglongrightarrow> (t - x0) * 0"
    by (rule tendsto_mult_left)
  then have "(\<lambda>n. t - (t - x0) * 0.85 ^ n) \<longlonglongrightarrow> t - (t - x0) * 0"
    by (intro tendsto_diff tendsto_const)
  then show ?thesis by simp
qed

lemma error_after_50:
  "1 / 10 ^ 6 < \<bar>(0.8 - (0.8 - 0.5) * 0.85 ^ 50) - (0.8::real)\<bar> \<and>
   \<bar>(0.8 - (0.8 - 0.5) * 0.85 ^ 50) - (0.8::real)\<bar> < 1 / 10 ^ 4 \<and>
   1 / 10 ^ 6 < \<bar>(0.2 - (0.2 - 0.5) * 0.85 ^ 50) - (0.2::real)\<bar> \<and>
   \<bar>(0.2 - (0.2 - 0.5) * 0.85 ^ 50) - (0.2::real)\<bar> < 1 / 10 ^ 4"
  by (simp add: power_divide)

lemma error_after_78:
  "\<bar>(0.8 - (0.8 - 0.5) * 0.85 ^ 78) - (0.8::real)\<bar> < 1 / 10 ^ 6 \<and>
   \<bar>(0.2 - (0.2 - 0.5) * 0.85 ^ 78) - (0.2::real)\<bar> < 1 / 10 ^ 6"
  by (simp add: power_divide)

text \<open>
  C8, with the numbers of the code. Take a state reached from the start (in a container
  with a non-empty rectangle) by input events, the self-test timer among them or not,
  without a resize, with the touch flag
  clear, at position \<open>(x0, y0)\<close>, and a pointer sample whose constrained target is
  \<open>(tx, ty)\<close>. After \<open>n\<close> mouse-move samples at that point the position is
  \<open>tx - (tx - x0) * 0.85 ^ n\<close> (and likewise for y), which tends to the constrained
  target. From (0.5, 0.5) towards (0.8, 0.2) the distance after 50 samples is
  \<open>0.3 * 0.85 ^ 50\<close>, between 1e-6 and 1e-4 on each axis; it is below 1e-6 after 78
  samples. The numbers are exact reals: binary64 rounding is several orders of
  magnitude below these distances.
\<close>

theorem smoothing_convergence:
  assumes "jle (minX (computeBounds (init (Fin w) (Fin h))))
               (maxX (computeBounds (init (Fin w) (Fin h))))"
      and "jle (minY (computeBounds (init (Fin w) (Fin h))))
               (maxY (computeBounds (init (Fin w) (Fin h))))"
      and "list_all inputEvent es"
      and "s = run es (init (Fin w) (Fin h))"
      and "\<not> input_touchActive s"
      and "viewport_x s = Fin x0" and "viewport_y s = Fin y0"
      and "fst (applyBoundaryConstraints (jdiv (Fin cx) (Fin w)) (jdiv (Fin cy) (Fin h)) s) =
             (Fin tx, Fin ty)"
  shows "viewport_x ((handleMouseMove (Fin cx) (Fin cy) ^^ n) s) =
           Fin (tx - (tx - x0) * 0.85 ^ n) \<and>
         viewport_y ((handleMouseMove (Fin cx) (Fin cy) ^^ n) s) =
           Fin (ty - (ty - y0) * 0.85 ^ n) \<and>
         (\<lambda>k. tx - (tx - x0) * 0.85 ^ k) \<longlonglongrightarrow> tx \<and>
         (\<lambda>k. ty - (ty - y0) * 0.85 ^ k) \<longlonglongrightarrow> ty \<and>
         (x0 = 0.5 \<and> y0 = 0.5 \<and> tx = 0.8 \<and> ty = 0.2 \<longrightarrow>
            (\<exists>u v. viewport_x ((handleMouseMove (Fin cx) (Fin cy) ^^ 50) s) = Fin u \<and>
                   viewport_y ((handleMouseMove (Fin cx) (Fin cy) ^^ 50) s) = Fin v \<and>
                   1 / 10 ^ 6 < \<bar>u - 0.8\<bar> \<and> \<bar>u - 0.8\<bar> < 1 / 10 ^ 4 \<and>
                   1 / 10 ^ 6 < \<bar>v - 0.2\<bar> \<and> \<bar>v - 0.2\<bar> < 1 / 10 ^ 4) \<and>
            (\<exists>u v. viewport_x ((handleMouseMove (Fin cx) (Fin cy) ^^ 78) s) = Fin u \<and>
                   viewport_y ((handleMouseMove (Fin cx) (Fin cy) ^^ 78) s) = Fin v \<and>
                   \<bar>u - 0.8\<bar> < 1 / 10 ^ 6 \<and> \<bar>v - 0.2\<bar> < 1 / 10 ^ 6))"
proof -
  obtain r where st0: "steady False w h r (init (Fin w) (Fin h))" and nz: "w \<noteq> 0" "h \<noteq> 0"
    and nd: "rectMin w w r \<le> rectMax w w r" "rectMin w h r \<le> rectMax w h r"
    using init_steady [OF assms(1,2)] by blast
  have st: "steady False w h r s"
    unfolding assms(4) by (rule run_steady [OF nz nd assms(3) st0])
  from assms(8) have t: "tx = max (rectMin w w r) (min (rectMax w w r) (cx / w))"
    "ty = max (rectMin w h r) (min (rectMax w h r) (cy / h))"
    by (simp_all add: nz abc_steady [OF st nz])
  note it = mouse_iteration [OF st nz nd assms(6,7,5) t]
  have f: "\<And>k. viewport_x ((handleMouseMove (Fin cx) (Fin cy) ^^ k) s) =
             Fin (tx - (tx - x0) * 0.85 ^ k) \<and>
           viewport_y ((handleMouseMove (Fin cx) (Fin cy) ^^ k) s) =
             Fin (ty - (ty - y0) * 0.85 ^ k)"
    using it by blast
  have num: "x0 = 0.5 \<and> y0 = 0.5 \<and> tx = 0.8 \<and> ty = 0.2 \<longrightarrow>
            (\<exists>u v. viewport_x ((handleMouseMove (Fin cx) (Fin cy) ^^ 50) s) = Fin u \<and>
                   viewport_y ((handleMouseMove (Fin cx) (Fin cy) ^^ 50) s) = Fin v \<and>
                   1 / 10 ^ 6 < \<bar>u - 0.8\<bar> \<and> \<bar>u - 0.8\<bar> < 1 / 10 ^ 4 \<and>
                   1 / 10 ^ 6 < \<bar>v - 0.2\<bar> \<and> \<bar>v - 0.2\<bar> < 1 / 10 ^ 4) \<and>
            (\<exists>u v. viewport_x ((handleMouseMove (Fin cx) (Fin cy) ^^ 78) s) = Fin u \<and>
                   viewport_y ((handleMouseMove (Fin cx) (Fin cy) ^^ 78) s) = Fin v \<and>
                   \<bar>u - 0.8\<bar> < 1 / 10 ^ 6 \<and> \<bar>v - 0.2\<bar> < 1 / 10 ^ 6)"
  proof (intro impI conjI)
    assume a: "x0 = 0.5 \<and> y0 = 0.5 \<and> tx = 0.8 \<and> ty = 0.2"
    show "\<exists>u v. viewport_x ((handleMouseMove (Fin cx) (Fin cy) ^^ 50) s) = Fin u \<and>
                   viewport_y ((handleMouseMove (Fin cx) (Fin cy) ^^ 50) s) = Fin v \<and>
                   1 / 10 ^ 6 < \<bar>u - 0.8\<bar> \<and> \<bar>u - 0.8\<bar> < 1 / 10 ^ 4 \<and>
                   1 / 10 ^ 6 < \<bar>v - 0.2\<bar> \<and> \<bar>v - 0.2\<bar> < 1 / 10 ^ 4"
      using f [of 50] a error_after_50 by blast
    show "\<exists>u v. viewport_x ((handleMouseMove (Fin cx) (Fin cy) ^^ 78) s) = Fin u \<and>
                   viewport_y ((handleMouseMove (Fin cx) (Fin cy) ^^ 78) s) = Fin v \<and>
                   \<bar>u - 0.8\<bar> < 1 / 10 ^ 6 \<and> \<bar>v - 0.2\<bar> < 1 / 10 ^ 6"
      using f [of 78] a error_after_78 by blast
  qed
  from f [of n] geometric_error_vanishes [of tx x0] geometric_error_vanishes [of ty y0] num
  show ?thesis by blast
qed

lemma hd_start:
  "computeBounds (init (Fin 1920) (Fin 1080)) =
     \<lparr> minX = Fin (37 / 600), maxX = Fin (563 / 600),
       minY = Fin (127 / 1350), maxY = Fin (1223 / 1350) \<rparr>"
  "fst (applyBoundaryConstraints (jdiv (Fin 1536) (Fin 1920)) (jdiv (Fin 216) (Fin 1080))
          (selfTestTimeout (init (Fin 1920) (Fin 1080)))) = (Fin 0.8, Fin 0.2)"
  "viewport_x (selfTestTimeout (init (Fin 1920) (Fin 1080))) = Fin 0.5"
  "viewport_y (selfTestTimeout (init (Fin 1920) (Fin 1080))) = Fin 0.5"
  "\<not> input_touchActive (selfTestTimeout (init (Fin 1920) (Fin 1080)))"
  by (simp_all add: applyBoundaryConstraints_def refreshBounds_def fillCache_def
      computeBounds_def boundaryPadding_def init_defs)

text \<open>
  Witness for C8: the 1920 x 1080 container once the self-test timer has restored the
  centre, and the sample at (1536, 216), whose target (0.8, 0.2) is inside the
  rectangle; 78 samples.
\<close>

theorem smoothing_convergence_witness:
  "\<exists>u v. viewport_x ((handleMouseMove (Fin 1536) (Fin 216) ^^ 78)
            (selfTestTimeout (init (Fin 1920) (Fin 1080)))) = Fin u \<and>
         viewport_y ((handleMouseMove (Fin 1536) (Fin 216) ^^ 78)
            (selfTestTimeout (init (Fin 1920) (Fin 1080)))) = Fin v \<and>
         \<bar>u - 0.8\<bar> < 1 / 10 ^ 6 \<and> \<bar>v - 0.2\<bar> < 1 / 10 ^ 6"
proof -
  let ?i = "init (Fin 1920) (Fin 1080)"
  let ?s = "selfTestTimeout ?i"
  have h1: "jle (minX (computeBounds ?i)) (maxX (computeBounds ?i))"
    unfolding hd_start by simp
  have h2: "jle (minY (computeBounds ?i)) (maxY (computeBounds ?i))"
    unfolding hd_start by simp
  have h3: "list_all inputEvent [SelfTestTimeout]" by simp
  have h4: "?s = run [SelfTestTimeout] ?i" by simp
  from smoothing_convergence [OF h1 h2 h3 h4 hd_start(5) hd_start(3) hd_start(4) hd_start(2), of 78]
  show ?thesis by blast
qed

text \<open>
  Counterexample to C8 as stated: in the same setting, with \<open>\<alpha> = 0.15\<close>, the position
  after 50 samples is still more than 1e-6 away from the target on the x axis.
\<close>

theorem fifty_iterations_miss_1e_6:
  "viewport_x (selfTestTimeout (init (Fin 1920) (Fin 1080))) = Fin 0.5 \<and>
   input_touchActive (selfTestTimeout (init (Fin 1920) (Fin 1080))) = False \<and>
   fst (applyBoundaryConstraints (jdiv (Fin 1536) (Fin 1920)) (jdiv (Fin 216) (Fin 1080))
          (selfTestTimeout (init (Fin 1920) (Fin 1080)))) = (Fin 0.8, Fin 0.2) \<and>
   (\<exists>u. viewport_x ((handleMouseMove (Fin 1536) (Fin 216) ^^ 50)
           (selfTestTimeout (init (Fin 1920) (Fin 1080)))) = Fin u \<and> 1 / 10 ^ 6 < \<bar>u - 0.8\<bar>)"
proof -
  let ?i = "init (Fin 1920) (Fin 1080)"
  let ?s = "selfTestTimeout ?i"
  have h1: "jle (minX (computeBounds ?i)) (maxX (computeBounds ?i))"
    unfolding hd_start by simp
  have h2: "jle (minY (computeBounds ?i)) (maxY (computeBounds ?i))"
    unfolding hd_start by simp
  obtain r where st0: "steady False 1920 1080 r ?i"
    and nd: "rectMin 1920 1920 r \<le> rectMax 1920 1920 r" "rectMin 1920 1080 r \<le> rectMax 1920 1080 r"
    using init_steady [OF h1 h2] by blast
  have nz: "(1920::real) \<noteq> 0" "(1080::real) \<noteq> 0" by simp_all
  have st: "steady False 1920 1080 r ?s"
    by (rule selfTestTimeout_steady [OF st0 nz nd])
  have t: "0.8 = max (rectMin 1920 1920 r) (min (rectMax 1920 1920 r) (1536 / 1920))"
    "0.2 = max (rectMin 1920 1080 r) (min (rectMax 1920 1080 r) (216 / 1080))"
    using hd_start(2) by (simp_all add: abc_steady [OF st nz])
  from mouse_iteration [OF st nz nd hd_start(3,4,5) t, of 50]
  have "viewport_x ((handleMouseMove (Fin 1536) (Fin 216) ^^ 50) ?s) =
          Fin (0.8 - (0.8 - 0.5) * 0.85 ^ 50)" by blast
  with error_after_50 hd_start show ?thesis by auto
qed

section \<open>Finite positions\<close>

lemma inRange_iff: "inRange K v = (\<exists>a. v = Fin a \<and> \<bar>a\<bar> \<le> K)"
  by (cases v) auto

lemma inRange_finite: "inRange K v \<Longrightarrow> is_finite v"
  by (cases v) auto

lemma inRange_not_NaN: "inRange K v \<Longrightarrow> v \<noteq> NaN"
  by (cases v) auto

lemma radius_iff:
  "(jle (Fin 60) v \<and> jle v (Fin 200)) = (\<exists>r. v = Fin r \<and> 60 \<le> r \<and> r \<le> 200)"
  by (cases v) auto

lemma quotient_le:
  fixes r w :: real
  assumes "1 \<le> \<bar>w\<bar>"
  shows "\<bar>r / w\<bar> \<le> \<bar>r\<bar>"
proof -
  have "\<bar>r\<bar> * 1 \<le> \<bar>r\<bar> * \<bar>w\<bar>" using assms by (intro mult_left_mono) auto
  moreover have "0 < \<bar>w\<bar>" using assms by linarith
  ultimately show ?thesis by (simp add: abs_divide divide_le_eq)
qed

lemma jdiv_usable: "usable v \<Longrightarrow> jdiv (Fin a) v \<noteq> NaN"
  by (cases v) auto

lemma jdiv_radius:
  assumes "usable v" "60 \<le> r" "r \<le> 200"
  shows "\<exists>q. jdiv (Fin r) v = Fin q \<and> \<bar>q\<bar> \<le> 200"
proof (cases v)
  case (Fin w)
  with assms(1) have w: "1 \<le> \<bar>w\<bar>" by simp
  then have "w \<noteq> 0" by auto
  moreover from quotient_le [OF w, of r] assms(2,3) have "\<bar>r / w\<bar> \<le> 200" by simp
  ultimately show ?thesis using Fin by simp
qed (use assms in simp_all)

lemma clamp_inRange:
  "inRange K lo \<Longrightarrow> inRange K hi \<Longrightarrow> v \<noteq> NaN \<Longrightarrow> inRange K (jmax lo (jmin hi v))"
  by (cases lo; cases hi; cases v) (auto simp: jmax_def jmin_def)

lemma smooth_inRange:
  assumes "inRange K x" "inRange K c" "0 \<le> k" "k \<le> 1"
  shows "inRange K (jadd x (jmul (jsub c x) (Fin k)))"
proof -
  from assms(1,2) obtain a b where x: "x = Fin a" "\<bar>a\<bar> \<le> K" and c: "c = Fin b" "\<bar>b\<bar> \<le> K"
    by (auto simp: inRange_iff)
  from smooth_in_range [of "- K" a K b k] x(2) c(2) assms(3,4)
  have "\<bar>a + (b - a) * k\<bar> \<le> K" by (simp add: abs_le_iff)
  then show ?thesis by (simp add: x c)
qed

lemma computeBounds_bounded:
  assumes "jle (Fin 60) (viewport_radius s)" "jle (viewport_radius s) (Fin 200)"
      and "usable (container_width s)" "usable (container_height s)"
  shows "boundedBounds (computeBounds s)"
proof -
  from assms(1,2) obtain r where r: "viewport_radius s = Fin r" "60 \<le> r" "r \<le> 200"
    using radius_iff by blast
  from jdiv_radius [OF assms(3) r(2,3)] obtain a where
    a: "jdiv (Fin r) (container_width s) = Fin a" "\<bar>a\<bar> \<le> 200" by blast
  from jdiv_radius [OF assms(4) r(2,3)] obtain b where
    b: "jdiv (Fin r) (container_height s) = Fin b" "\<bar>b\<bar> \<le> 200" by blast
  from a(2) b(2) show ?thesis
    by (simp add: computeBounds_def boundedBounds_def r a b boundaryPadding_def Let_def
        abs_le_iff)
qed

lemma refresh_cached:
  "cachedBounds (snd (refreshBounds s)) = Some (fst (refreshBounds s))"
  by (simp add: refreshBounds_def fillCache_def Let_def split: option.splits)

lemma refresh_bounded:
  assumes "boundedState s"
  shows "boundedBounds (fst (refreshBounds s))"
  using assms computeBounds_bounded [of s]
  by (auto simp: boundedState_def refreshBounds_def fillCache_def Let_def split: option.splits)

lemma pendingBounded_refresh [simp]:
  "pendingBounded (snd (refreshBounds s)) = pendingBounded s"
  "restoreOk (snd (refreshBounds s)) = restoreOk s"
  by (simp_all add: pendingBounded_def restoreOk_def)

lemma boundedState_refresh:
  "boundedState s \<Longrightarrow> boundedState (snd (refreshBounds s))"
  using refresh_bounded [of s] by (simp add: boundedState_def refresh_cached)

lemma boundedState_input [simp]:
  "boundedState (s\<lparr> input_mouseX := a \<rparr>) = boundedState s"
  "boundedState (s\<lparr> input_mouseY := a \<rparr>) = boundedState s"
  "boundedState (s\<lparr> input_isMouseActive := b \<rparr>) = boundedState s"
  "boundedState (s\<lparr> input_keyboardActive := b \<rparr>) = boundedState s"
  "boundedState (s\<lparr> input_touchActive := b \<rparr>) = boundedState s"
  "boundedState (s\<lparr> input_keysPressed := K \<rparr>) = boundedState s"
  "boundedState (s\<lparr> keyboard_isMoving := b \<rparr>) = boundedState s"
  "boundedState (s\<lparr> keyboard_animationId := i \<rparr>) = boundedState s"
  "boundedState (s\<lparr> raf_lastHandle := n \<rparr>) = boundedState s"
  by (simp_all add: boundedState_def pendingBounded_def restoreOk_def)

lemma boundedState_pending:
  "boundedState s \<Longrightarrow> boundedState (s\<lparr> raf_pending := None \<rparr>)"
  "boundedState s \<Longrightarrow> inRange coordinateBound t \<Longrightarrow>
   boundedState (s\<lparr> raf_pending := Some (k, t) \<rparr>)"
  by (simp_all add: boundedState_def pendingBounded_def restoreOk_def)

lemma boundedState_position:
  "boundedState s \<Longrightarrow> inRange 202 a \<Longrightarrow> inRange 202 b \<Longrightarrow>
   boundedState (s\<lparr> viewport_x := a, viewport_y := b \<rparr>)"
  by (simp add: boundedState_def pendingBounded_def restoreOk_def)

lemma abc_bounded:
  assumes "boundedState s" "x \<noteq> NaN" "y \<noteq> NaN"
  shows "inRange 202 (fst (fst (applyBoundaryConstraints x y s))) \<and>
         inRange 202 (snd (fst (applyBoundaryConstraints x y s))) \<and>
         boundedState (snd (applyBoundaryConstraints x y s))"
  using refresh_bounded [OF assms(1)] boundedState_refresh [OF assms(1)] assms(2,3)
  by (simp add: abc_unfold boundedBounds_def clamp_inRange)

lemma updateViewportPosition_bounded:
  assumes "boundedState s" "tx \<noteq> NaN" "ty \<noteq> NaN"
  shows "boundedState (updateViewportPosition tx ty smooth s)"
proof -
  obtain c s1 where a: "applyBoundaryConstraints tx ty s = (c, s1)" by (cases "applyBoundaryConstraints tx ty s")
  from abc_bounded [OF assms] a have f: "inRange 202 (fst c)" "inRange 202 (snd c)" "boundedState s1"
    by simp_all
  from f(3) have v: "inRange 202 (viewport_x s1)" "inRange 202 (viewport_y s1)"
    by (simp_all add: boundedState_def)
  show ?thesis
    unfolding updateViewportPosition_def a Let_def
    using f v
    by (simp add: boundedState_position smooth_inRange smoothingFactor_def touchSmoothingFactor_def)
qed

lemma sample_bounded:
  assumes "boundedState s"
  shows "boundedState
     (case mouseToViewportPosition (Fin cx) (Fin cy) s of
        (position, s2) \<Rightarrow> updateViewportPosition (fst position) (snd position) smooth s2)"
proof -
  from assms have u: "usable (container_width s)" "usable (container_height s)"
    by (simp_all add: boundedState_def)
  obtain c s2 where m: "mouseToViewportPosition (Fin cx) (Fin cy) s = (c, s2)"
    by (cases "mouseToViewportPosition (Fin cx) (Fin cy) s")
  from abc_bounded [OF assms, of "jdiv (Fin cx) (container_width s)" "jdiv (Fin cy) (container_height s)"]
    jdiv_usable [OF u(1), of cx] jdiv_usable [OF u(2), of cy] m
  have f: "inRange 202 (fst c)" "inRange 202 (snd c)" "boundedState s2"
    by (auto simp: mouseToViewportPosition_def Let_def)
  show ?thesis
    unfolding m using f
    by (simp add: updateViewportPosition_bounded inRange_not_NaN)
qed

lemma clamp_radius:
  "v \<noteq> NaN \<Longrightarrow>
   jle (Fin 60) (jmax (Fin 60) (jmin (Fin 200) v)) \<and> jle (jmax (Fin 60) (jmin (Fin 200) v)) (Fin 200)"
  by (cases v) (auto simp: jmax_def jmin_def)

lemma jmin_not_NaN: "u \<noteq> NaN \<Longrightarrow> v \<noteq> NaN \<Longrightarrow> jmin u v \<noteq> NaN"
  by (simp add: jmin_def)

lemma jmul_Fin_not_NaN: "u \<noteq> NaN \<Longrightarrow> k \<noteq> 0 \<Longrightarrow> jmul u (Fin k) \<noteq> NaN"
  by (cases u) auto

lemma getOptimalViewportRadius_not_NaN:
  assumes "container_width s \<noteq> NaN" "container_height s \<noteq> NaN"
  shows "getOptimalViewportRadius s \<noteq> NaN"
  using assms
  by (cases "deviceType s")
     (simp_all add: getOptimalViewportRadius_def Let_def jmin_not_NaN jmul_Fin_not_NaN)

lemma calculateViewportRadius_bounded:
  assumes "container_width s \<noteq> NaN" "container_height s \<noteq> NaN"
  shows "jle (Fin 60) (viewport_radius (calculateViewportRadius s)) \<and>
         jle (viewport_radius (calculateViewportRadius s)) (Fin 200)"
  using getOptimalViewportRadius_not_NaN [OF assms]
  by (simp add: calculateViewportRadius_def Let_def clamp_radius jmul_Fin_not_NaN)

lemma calculateViewportRadius_keeps [simp]:
  "viewport_x (calculateViewportRadius s) = viewport_x s"
  "viewport_y (calculateViewportRadius s) = viewport_y s"
  "cachedBounds (calculateViewportRadius s) = cachedBounds s"
  "container_width (calculateViewportRadius s) = container_width s"
  "container_height (calculateViewportRadius s) = container_height s"
  "pendingBounded (calculateViewportRadius s) = pendingBounded s"
  "restoreOk (calculateViewportRadius s) = restoreOk s"
  "raf_pending (calculateViewportRadius s) = raf_pending s"
  by (simp_all add: calculateViewportRadius_def Let_def pendingBounded_def restoreOk_def)

lemma usable_not_NaN: "usable v \<Longrightarrow> v \<noteq> NaN"
  by (cases v) auto

text \<open>
  A resize keeps the cached bounds, which were computed from a usable size and a radius
  between 60 and 200, and replaces the radius by one in the same range.
\<close>

lemma handleResize_bounded:
  assumes "boundedState s" "usable a" "usable b"
  shows "boundedState (handleResize a b s)" "boundedState (handleOrientationChange a b s)"
proof -
  let ?s2 = "updateResponsiveState (updateContainerDimensions a b s)"
  have c: "container_width ?s2 = a" "container_height ?s2 = b"
    by (simp_all add: updateResponsiveState_def updateContainerDimensions_def)
  have k: "viewport_x ?s2 = viewport_x s" "viewport_y ?s2 = viewport_y s"
    "viewport_radius ?s2 = viewport_radius s" "cachedBounds ?s2 = cachedBounds s"
    "pendingBounded ?s2 = pendingBounded s" "restoreOk ?s2 = restoreOk s"
    by (simp_all add: updateResponsiveState_def updateContainerDimensions_def pendingBounded_def
        restoreOk_def)
  have r: "jle (Fin 60) (viewport_radius (calculateViewportRadius ?s2)) \<and>
           jle (viewport_radius (calculateViewportRadius ?s2)) (Fin 200)"
    by (rule calculateViewportRadius_bounded) (simp_all add: c usable_not_NaN assms)
  have "boundedState (if isLoaded ?s2 then calculateViewportRadius ?s2 else ?s2)"
    using assms r by (simp add: boundedState_def c k)
  then show "boundedState (handleResize a b s)" "boundedState (handleOrientationChange a b s)"
    by (simp_all add: handleResize_def handleOrientationChange_def Let_def)
qed

lemma handleMouseMove_bounded:
  "boundedState s \<Longrightarrow> boundedState (handleMouseMove (Fin cx) (Fin cy) s)"
  using sample_bounded [where s = "s\<lparr> input_mouseX := Fin cx, input_mouseY := Fin cy,
                input_isMouseActive := True, input_keyboardActive := False \<rparr>"
      and cx = cx and cy = cy and smooth = True]
  by (simp add: handleMouseMove_def Let_def)

lemma handleTouchStart_bounded:
  "boundedState s \<Longrightarrow> boundedState (handleTouchStart (Some (Fin cx, Fin cy)) s)"
  using sample_bounded [where s = "s\<lparr> input_touchActive := True, input_isMouseActive := False,
                input_keyboardActive := False,
                input_mouseX := Fin cx, input_mouseY := Fin cy \<rparr>"
      and cx = cx and cy = cy and smooth = False]
  by (simp add: handleTouchStart_def Let_def)

lemma handleTouchMove_bounded:
  "boundedState s \<Longrightarrow> boundedState (handleTouchMove (Some (Fin cx, Fin cy)) s)"
  using sample_bounded [where s = "s\<lparr> input_mouseX := Fin cx, input_mouseY := Fin cy \<rparr>"
      and cx = cx and cy = cy and smooth = True]
  by (simp add: handleTouchMove_def Let_def)

lemma stopKeyboardMovement_bounded:
  "boundedState s \<Longrightarrow> boundedState (stopKeyboardMovement s)"
  by (simp add: stopKeyboardMovement_def cancelAnimationFrame_def Let_def boundedState_pending
      split: option.splits)

lemma requestAnimationFrame_bounded:
  "boundedState s \<Longrightarrow> inRange coordinateBound t \<Longrightarrow>
   boundedState ((snd (requestAnimationFrame t s))\<lparr> keyboard_animationId := i \<rparr>)"
  by (simp add: requestAnimationFrame_def Let_def boundedState_pending)

lemma startKeyboardMovement_bounded:
  assumes st: "boundedState s" and t: "inRange coordinateBound now"
  shows "boundedState (startKeyboardMovement now s)"
proof -
  from st have "boundedState (s\<lparr> keyboard_isMoving := True \<rparr>)" by simp
  from requestAnimationFrame_bounded [OF this t] st show ?thesis
    by (simp add: startKeyboardMovement_def Let_def case_prod_beta)
qed

lemma moveViewportByDelta_bounded:
  assumes "boundedState s"
  shows "boundedState (moveViewportByDelta (Fin dx) (Fin dy) s)"
proof -
  from assms obtain x y where xy: "viewport_x s = Fin x" "viewport_y s = Fin y"
    by (auto simp: boundedState_def inRange_iff)
  from abc_bounded [OF assms, of "Fin (x + dx)" "Fin (y + dy)"] show ?thesis
    by (simp add: moveViewportByDelta_def xy Let_def case_prod_beta boundedState_position)
qed

lemma getKeyboardMoveSpeed_finite: "is_finite (getKeyboardMoveSpeed s)"
  by (simp add: getKeyboardMoveSpeed_def)

lemma moveLoop_bounded:
  assumes st: "boundedState s" and t: "inRange coordinateBound (Fin tNow)"
  shows "boundedState (moveLoop (Fin tPrev) (Fin tNow) s)"
proof (cases "\<not> keyboard_isMoving s \<or> input_keysPressed s = {}")
  case True
  then show ?thesis
    using stopKeyboardMovement_bounded [OF st] by (simp add: moveLoop_def)
next
  case False
  obtain b where b: "getKeyboardMoveSpeed s = Fin b"
    using getKeyboardMoveSpeed_finite [of s] by (auto simp: is_finite_iff)
  let ?m = "b * ((tNow - tPrev) / 16.67)"
  let ?d = "heldDirection (input_keysPressed s)"
  let ?s1 = "if fst ?d * ?m \<noteq> 0 \<or> snd ?d * ?m \<noteq> 0
             then moveViewportByDelta (Fin (fst ?d * ?m)) (Fin (snd ?d * ?m)) s else s"
  have s1: "boundedState ?s1"
    using st moveViewportByDelta_bounded [OF st] by simp
  have e: "moveLoop (Fin tPrev) (Fin tNow) s =
     (snd (requestAnimationFrame (Fin tNow) ?s1))
       \<lparr> keyboard_animationId := Some (fst (requestAnimationFrame (Fin tNow) ?s1)) \<rparr>"
    using False
    by (simp add: moveLoop_def b keyboardDeltas_Fin Let_def case_prod_beta)
  show ?thesis
    unfolding e by (rule requestAnimationFrame_bounded [OF s1 t])
qed

lemma animationFrame_bounded:
  assumes st: "boundedState s" and t: "inRange coordinateBound (Fin tNow)"
  shows "boundedState (animationFrame (Fin tNow) s)"
proof (cases "raf_pending s")
  case None
  then show ?thesis using st by (simp add: animationFrame_def)
next
  case (Some p)
  obtain k t where p: "p = (k, t)" by (cases p)
  from st Some p obtain tPrev where t': "t = Fin tPrev"
    by (auto simp: boundedState_def pendingBounded_def inRange_iff)
  show ?thesis
    using moveLoop_bounded [OF boundedState_pending(1) [OF st] t, of tPrev]
    by (simp add: animationFrame_def Some p t')
qed

lemma selfTestTimeout_bounded:
  "boundedState s \<Longrightarrow> boundedState (selfTestTimeout s)"
  by (auto simp: selfTestTimeout_def boundedState_def restoreOk_def pendingBounded_def
      split: option.splits)

lemma step_bounded:
  assumes st: "boundedState s" and ev: "admissibleEvent e"
  shows "boundedState (step e s)"
proof (cases e)
  case (MouseMove cx cy)
  with ev handleMouseMove_bounded [OF st] show ?thesis
    by (auto simp: inRange_iff)
next
  case (TouchStart t)
  with ev handleTouchStart_bounded [OF st] st show ?thesis
    by (cases t) (auto simp: inRange_iff handleTouchStart_def)
next
  case (TouchMove t)
  with ev handleTouchMove_bounded [OF st] st show ?thesis
    by (cases t) (auto simp: inRange_iff handleTouchMove_def)
next
  case (TouchEnd b)
  with st show ?thesis by (simp add: handleTouchEnd_def)
next
  case (KeyDown key now)
  with ev st show ?thesis
    by (simp add: handleKeyDown_def Let_def startKeyboardMovement_bounded)
next
  case (KeyUp key)
  with st show ?thesis
    by (simp add: handleKeyUp_def Let_def stopKeyboardMovement_bounded)
next
  case (AnimationFrame t)
  with ev obtain tNow where "t = Fin tNow" by (auto simp: inRange_iff)
  with AnimationFrame ev animationFrame_bounded [OF st, of tNow] show ?thesis
    by simp
next
  case MouseEnter
  with st show ?thesis by simp
next
  case MouseLeave
  with st show ?thesis by simp
next
  case Blur
  with st show ?thesis by (simp add: handleBlur_def stopKeyboardMovement_bounded)
next
  case (VisibilityChange hidden)
  with st show ?thesis by (simp add: handleVisibilityChange_def stopKeyboardMovement_bounded)
next
  case (Resize a b)
  with ev handleResize_bounded(1) [OF st] show ?thesis by simp
next
  case (OrientationChange a b)
  with ev handleResize_bounded(2) [OF st] show ?thesis by simp
next
  case SelfTestTimeout
  with selfTestTimeout_bounded [OF st] show ?thesis by simp
qed

lemma run_bounded:
  "list_all admissibleEvent es \<Longrightarrow> boundedState s \<Longrightarrow> boundedState (run es s)"
proof (induction es arbitrary: s)
  case Nil
  then show ?case by simp
next
  case (Cons e es)
  from Cons.prems have "admissibleEvent e" "list_all admissibleEvent es" by simp_all
  with Cons.IH step_bounded [OF Cons.prems(2)] show ?case by simp
qed

lemma init_bounded:
  assumes "usable a" "usable b"
  shows "boundedState (init a b)"
proof -
  let ?s = "updateContainerDimensions a b moduleState\<lparr> viewport_x := Fin 0.5, viewport_y := Fin 0.5 \<rparr>"
  have "jle (Fin 60) (viewport_radius (calculateViewportRadius ?s)) \<and>
        jle (viewport_radius (calculateViewportRadius ?s)) (Fin 200)"
    by (rule calculateViewportRadius_bounded)
       (simp_all add: updateContainerDimensions_def usable_not_NaN assms)
  then show ?thesis
    using assms
    by (simp add: init_def initializeViewport_def testViewportMask_def Let_def boundedState_def
        pendingBounded_def restoreOk_def updateContainerDimensions_def moduleState_def)
qed

text \<open>
  C3, as far as the code keeps it. Start the viewer in a container whose width and
  height are usable (of magnitude at least 1; negative and infinite values are allowed)
  and process any sequence of pointer, touch, keyboard, frame, focus and timer events
  with coordinates and times of magnitude at most \<open>2 ^ 1000\<close>, and of resizes to usable
  sizes. Then after every event the viewport position is a finite number, of magnitude
  at most 202 on each axis, the radius lies between 60 and 200, the cached bounds have
  magnitude at most 202 and the captured frame time is within the bound. On these
  inputs every intermediate result of the handlers is below \<open>2 ^ 1002\<close> in magnitude,
  so the binary64 operations of the code do not overflow where the exact operations of
  the model are finite.
\<close>

theorem finite_state_preserved:
  assumes "usable innerWidth" and "usable innerHeight" and "list_all admissibleEvent es"
  shows "is_finite (viewport_x (run es (init innerWidth innerHeight))) \<and>
         is_finite (viewport_y (run es (init innerWidth innerHeight))) \<and>
         boundedState (run es (init innerWidth innerHeight))"
proof -
  have b: "boundedState (run es (init innerWidth innerHeight))"
    by (rule run_bounded [OF assms(3) init_bounded [OF assms(1,2)]])
  then have "inRange 202 (viewport_x (run es (init innerWidth innerHeight)))"
    "inRange 202 (viewport_y (run es (init innerWidth innerHeight)))"
    by (simp_all add: boundedState_def)
  with b inRange_finite show ?thesis by blast
qed

text \<open>
  Witness for C3: a container of width -300 and infinite height, with pointer, keyboard
  and touch events and a resize to 800 x 600.
\<close>

theorem finite_state_preserved_witness:
  "is_finite (viewport_x (run [MouseMove (Fin 100) (Fin 50), KeyDown ''arrowleft'' (Fin 0),
      AnimationFrame (Fin 16.67), Resize (Fin 800) (Fin 600), TouchStart (Some (Fin 10, Fin 10))]
      (init (Fin (- 300)) PInf))) \<and>
   is_finite (viewport_y (run [MouseMove (Fin 100) (Fin 50), KeyDown ''arrowleft'' (Fin 0),
      AnimationFrame (Fin 16.67), Resize (Fin 800) (Fin 600), TouchStart (Some (Fin 10, Fin 10))]
      (init (Fin (- 300)) PInf)))"
proof -
  have h1: "usable (Fin (- 300))" by simp
  have h2: "usable PInf" by simp
  have h3: "list_all admissibleEvent [MouseMove (Fin 100) (Fin 50), KeyDown ''arrowleft'' (Fin 0),
      AnimationFrame (Fin 16.67), Resize (Fin 800) (Fin 600), TouchStart (Some (Fin 10, Fin 10))]"
    by (simp add: coordinateBound_def)
  from finite_state_preserved [OF h1 h2 h3] show ?thesis by blast
qed

text \<open>
  Counterexample to C3 as stated. After a resize to width 0 a mouse-move sample stores
  \<^verbatim>\<open>Infinity\<close> in \<^verbatim>\<open>viewport.x\<close>, and so does a keyboard tick; a touch start in a
  viewer started at width 0 does the same; with a \<^verbatim>\<open>NaN\<close> width the position becomes
  \<^verbatim>\<open>NaN\<close>. No branch of the boundary code maps these cases to a midpoint.
\<close>

theorem zero_width_stores_infinity:
  "is_finite (viewport_x (init (Fin 800) (Fin 600))) \<and>
   viewport_x (run [Resize (Fin 0) (Fin 600), MouseMove (Fin 100) (Fin 50)]
     (init (Fin 800) (Fin 600))) = PInf \<and>
   viewport_x (run [Resize (Fin 0) (Fin 600), KeyDown ''arrowleft'' (Fin 0),
     AnimationFrame (Fin 16.67)] (init (Fin 800) (Fin 600))) = PInf \<and>
   viewport_x (run [TouchStart (Some (Fin 100, Fin 50))] (init (Fin 0) (Fin 600))) = PInf \<and>
   viewport_x (run [MouseMove (Fin 100) (Fin 50)] (init NaN (Fin 600))) = NaN"
  by (simp add: handler_defs init_defs jsub_def jmin_def jmax_def jsne_def jgt_def)

section \<open>The animation-frame queue\<close>

text \<open>
  The state keeps one slot for the queued \<^verbatim>\<open>moveLoop\<close> closure. The lemmas below show
  that one slot is enough on every run of the viewer.
\<close>

lemma loopQueued_fields:
  "raf_pending s' = raf_pending s \<Longrightarrow> keyboard_isMoving s' = keyboard_isMoving s \<Longrightarrow>
   keyboard_animationId s' = keyboard_animationId s \<Longrightarrow> loopQueued s' = loopQueued s"
  by (simp add: loopQueued_def split: option.splits)

lemma sample_loop:
  "loopQueued
     (case mouseToViewportPosition cx cy s of
        (position, s2) \<Rightarrow> updateViewportPosition (fst position) (snd position) smooth s2) =
   loopQueued s"
  by (rule loopQueued_fields)
     (simp_all add: case_prod_beta mouseToViewportPosition_def updateViewportPosition_def
        abc_unfold Let_def)

lemma stopKeyboardMovement_loop:
  "loopQueued s \<Longrightarrow> raf_pending (stopKeyboardMovement s) = None"
  by (auto simp: loopQueued_def stopKeyboardMovement_def cancelAnimationFrame_def Let_def
      split: option.splits)

lemma stopKeyboardMovement_loopQueued:
  "loopQueued s \<Longrightarrow> loopQueued (stopKeyboardMovement s)"
  by (simp add: loopQueued_def [of "stopKeyboardMovement s"] stopKeyboardMovement_loop)

lemma startKeyboardMovement_loopQueued:
  "loopQueued s \<Longrightarrow> loopQueued (startKeyboardMovement now s)"
  by (simp add: startKeyboardMovement_def requestAnimationFrame_def Let_def loopQueued_def)

lemma moveLoop_loopQueued:
  "loopQueued s \<Longrightarrow> loopQueued (moveLoop tPrev tNow s)"
proof (cases "\<not> keyboard_isMoving s \<or> input_keysPressed s = {}")
  case True
  assume "loopQueued s"
  with True show ?thesis by (simp add: moveLoop_def stopKeyboardMovement_loopQueued)
next
  case False
  then have m: "keyboard_isMoving s" by simp
  have k: "keyboard_isMoving (moveViewportByDelta dx dy s)" for dx dy
    using m by (simp add: moveViewportByDelta_def abc_unfold Let_def)
  from False m k show ?thesis
    by (simp add: moveLoop_def requestAnimationFrame_def Let_def case_prod_beta loopQueued_def)
qed

lemma loopQueued_update [simp]:
  "loopQueued (s\<lparr> input_mouseX := a \<rparr>) = loopQueued s"
  "loopQueued (s\<lparr> input_mouseY := a \<rparr>) = loopQueued s"
  "loopQueued (s\<lparr> input_isMouseActive := b \<rparr>) = loopQueued s"
  "loopQueued (s\<lparr> input_keyboardActive := b \<rparr>) = loopQueued s"
  "loopQueued (s\<lparr> input_touchActive := b \<rparr>) = loopQueued s"
  "loopQueued (s\<lparr> input_keysPressed := K \<rparr>) = loopQueued s"
  "loopQueued (s\<lparr> raf_pending := None \<rparr>)"
  by (simp_all add: loopQueued_def split: option.splits)

lemma handleResize_loop:
  "loopQueued (handleResize a b s) = loopQueued s"
  "loopQueued (handleOrientationChange a b s) = loopQueued s"
  by (rule loopQueued_fields;
      simp add: handleResize_def handleOrientationChange_def calculateViewportRadius_def
        updateResponsiveState_def updateContainerDimensions_def Let_def)+

text \<open>
  Every event keeps the property, so the queue never holds a second \<^verbatim>\<open>moveLoop\<close>
  closure: when \<^verbatim>\<open>startKeyboardMovement\<close> requests a frame, \<^verbatim>\<open>isMoving\<close> was false and
  nothing was queued, and \<^verbatim>\<open>moveLoop\<close> requests one only after it was taken off the
  queue.
\<close>

lemma step_loopQueued:
  assumes "loopQueued s"
  shows "loopQueued (step e s)"
proof (cases e)
  case (MouseMove cx cy)
  with assms show ?thesis by (simp add: handleMouseMove_def Let_def sample_loop)
next
  case (TouchStart t)
  with assms show ?thesis
    by (cases t) (auto simp: handleTouchStart_def Let_def sample_loop)
next
  case (TouchMove t)
  with assms show ?thesis
    by (cases t) (auto simp: handleTouchMove_def Let_def sample_loop)
next
  case (TouchEnd b)
  with assms show ?thesis by (simp add: handleTouchEnd_def)
next
  case (KeyDown key now)
  with assms show ?thesis
    by (simp add: handleKeyDown_def Let_def startKeyboardMovement_loopQueued)
next
  case (KeyUp key)
  with assms show ?thesis
    by (simp add: handleKeyUp_def Let_def stopKeyboardMovement_loopQueued)
next
  case (AnimationFrame t)
  with assms show ?thesis
    by (auto simp: animationFrame_def moveLoop_loopQueued split: option.splits)
next
  case MouseEnter
  with assms show ?thesis by simp
next
  case MouseLeave
  with assms show ?thesis by simp
next
  case Blur
  with assms show ?thesis
    by (simp add: handleBlur_def stopKeyboardMovement_loopQueued)
next
  case (VisibilityChange hidden)
  with assms show ?thesis
    by (simp add: handleVisibilityChange_def stopKeyboardMovement_loopQueued)
next
  case (Resize a b)
  with assms show ?thesis by (simp add: handleResize_loop)
next
  case (OrientationChange a b)
  with assms show ?thesis by (simp add: handleResize_loop)
next
  case SelfTestTimeout
  have "loopQueued (selfTestTimeout s) = loopQueued s"
    by (rule loopQueued_fields) (simp_all add: selfTestTimeout_def split: option.splits)
  with SelfTestTimeout assms show ?thesis by simp
qed

lemma run_loopQueued: "loopQueued s \<Longrightarrow> loopQueued (run es s)"
  by (induction es arbitrary: s) (simp_all add: step_loopQueued)

lemma reachable_loopQueued: "loopQueued (run es (init a b))"
  by (rule run_loopQueued) (simp add: loopQueued_def init_fields)

end
